theory Spec2Isabelle
  imports Complex_Main "HOL-Library.AList"
begin

section \<open>The stops validator (\<^verbatim>\<open>validate_data.py\<close>): data model\<close>

text \<open>
  A Python \<^verbatim>\<open>str\<close> is a sequence of Unicode code points; \<^verbatim>\<open>len\<close>, \<^verbatim>\<open>in\<close>,
  \<^verbatim>\<open>strip\<close> and the emoji pattern all work on code points, so a string is a list of
  code points here. \<open>py\<close> turns an ASCII literal into such a list.
\<close>

type_synonym pystr = "nat list"

definition py :: "string \<Rightarrow> pystr" where
  "py s = map of_char s"

text \<open>
  A Python \<^verbatim>\<open>float\<close>: a finite value (kept as the rational it denotes), the two
  infinities and NaN. Only comparisons against the integers \<open>-180, -90, 90, 180\<close> are
  made on these values.
\<close>

datatype pyfloat = Fin rat | PosInf | NegInf | NaN

text \<open>
  What \<^verbatim>\<open>json.loads\<close> returns. A JSON object becomes a \<^verbatim>\<open>dict\<close>: an association
  list in insertion order, whose keys are distinct.
\<close>

datatype json =
    JNull
  | JBool bool
  | JInt int
  | JFloat pyfloat
  | JStr pystr
  | JList "json list"
  | JObj "(pystr \<times> json) list"

type_synonym pydict = "(pystr \<times> json) list"

text \<open>The exceptions that can leave a function of the program.\<close>

datatype exn = TypeError | AttributeError | JSONDecodeError | UnicodeEncodeError

text \<open>
  A \<^verbatim>\<open>datetime\<close> value. A naive one is its wall-clock time in microseconds; an aware
  one (the string carried a UTC offset) is its instant in microseconds of UTC. Python
  orders two naive values, and two aware values, and raises \<^verbatim>\<open>TypeError\<close> when asked to
  order a naive against an aware one.
\<close>

datatype datetime = Naive int | Aware int

fun dt_gt :: "datetime \<Rightarrow> datetime \<Rightarrow> exn + bool" where
  "dt_gt (Naive a) (Naive b) = Inr (a > b)"
| "dt_gt (Aware a) (Aware b) = Inr (a > b)"
| "dt_gt _ _ = Inl TypeError"

fun dt_le :: "datetime \<Rightarrow> datetime \<Rightarrow> exn + bool" where
  "dt_le (Naive a) (Naive b) = Inr (a \<le> b)"
| "dt_le (Aware a) (Aware b) = Inr (a \<le> b)"
| "dt_le _ _ = Inl TypeError"

text \<open>
  A \<^verbatim>\<open>pathlib.Path\<close>: the directory part and the final component. \<^verbatim>\<open>suffix\<close> and
  \<^verbatim>\<open>stem\<close> cut the final component at its last dot, unless that dot is its first or
  its last character.
\<close>

record path =
  path_parent :: pystr
  path_name :: pystr

fun rfind :: "nat \<Rightarrow> pystr \<Rightarrow> int" where
  "rfind c [] = -1"
| "rfind c (x # xs) =
     (let r = rfind c xs in if 0 \<le> r then r + 1 else if x = c then 0 else -1)"

definition suffix :: "path \<Rightarrow> pystr" where
  "suffix p =
     (let i = rfind 46 (path_name p) in
      if 0 < i \<and> i < int (length (path_name p)) - 1 then drop (nat i) (path_name p) else [])"

definition stem :: "path \<Rightarrow> pystr" where
  "stem p =
     (let i = rfind 46 (path_name p) in
      if 0 < i \<and> i < int (length (path_name p)) - 1 then take (nat i) (path_name p)
      else path_name p)"

definition with_name :: "path \<Rightarrow> pystr \<Rightarrow> path" where
  "with_name p n = p\<lparr>path_name := n\<rparr>"

text \<open>
  The library and the file system the program runs against, as parameters:
  \<open>read_text p\<close> is the text of the file at \<open>p\<close> (\<open>None\<close>: there is no such file),
  \<open>json_loads\<close> is \<^verbatim>\<open>json.loads\<close> (\<open>None\<close>: \<^verbatim>\<open>JSONDecodeError\<close>),
  \<open>float_of_str\<close> is \<^verbatim>\<open>float\<close> on a \<^verbatim>\<open>str\<close> (\<open>None\<close>: \<^verbatim>\<open>ValueError\<close>) and
  \<open>fromisoformat\<close> is \<^verbatim>\<open>datetime.fromisoformat\<close> on a \<^verbatim>\<open>str\<close> (\<open>None\<close>:
  \<^verbatim>\<open>ValueError\<close>). \<open>stdout_encodes\<close> and \<open>file_encodes\<close> say which code points beyond
  ASCII the encoding of the output stream, and the default encoding of \<^verbatim>\<open>write_text\<close>,
  can encode (UTF-8 encodes all but the surrogates); \<open>isprintable\<close> is
  \<^verbatim>\<open>str.isprintable\<close> on one code point, which decides what \<^verbatim>\<open>repr\<close> escapes.
\<close>

record env =
  read_text :: "path \<Rightarrow> pystr option"
  json_loads :: "pystr \<Rightarrow> json option"
  float_of_str :: "pystr \<Rightarrow> pyfloat option"
  fromisoformat :: "pystr \<Rightarrow> datetime option"
  stdout_encodes :: "nat \<Rightarrow> bool"
  file_encodes :: "nat \<Rightarrow> bool"
  isprintable :: "nat \<Rightarrow> bool"

text \<open>The lines the program prints, one constructor for each \<^verbatim>\<open>print\<close> of the source.\<close>

datatype diag =
    FileNotFound path
  | NotAList
  | MissingFields nat "pystr list"
  | LatOutOfRange nat
  | LonOutOfRange nat
  | LatLonNotNumeric nat "json option" "json option"
  | ArrivalAfterDeparture nat json json
  | SwappingDates nat
  | PlaceholderInLink nat
  | ClearedPlaceholderLink nat
  | SuspiciousLink nat
  | WroteCleanedOutput path
  | ValidationPassed
  | ValidationFailed

section \<open>Built-in operations the program uses\<close>

text \<open>\<^verbatim>\<open>sub in s\<close> on two strings: \<open>sub\<close> occurs in \<open>s\<close> as a contiguous run.\<close>

fun startswith :: "pystr \<Rightarrow> pystr \<Rightarrow> bool" where
  "startswith s [] = True"
| "startswith [] (c # sub) = False"
| "startswith (x # s) (c # sub) = (x = c \<and> startswith s sub)"

fun contains :: "pystr \<Rightarrow> pystr \<Rightarrow> bool" where
  "contains sub [] = (sub = [])"
| "contains sub (x # s) = (startswith (x # s) sub \<or> contains sub s)"

text \<open>\<^verbatim>\<open>str.strip()\<close>: drops the leading and the trailing whitespace code points.\<close>

definition py_isspace :: "nat \<Rightarrow> bool" where
  "py_isspace c =
     ((9 \<le> c \<and> c \<le> 13) \<or> (28 \<le> c \<and> c \<le> 32) \<or> c = 133 \<or> c = 160 \<or> c = 5760
      \<or> (8192 \<le> c \<and> c \<le> 8202) \<or> c = 8232 \<or> c = 8233 \<or> c = 8239 \<or> c = 8287
      \<or> c = 12288)"

definition strip :: "pystr \<Rightarrow> pystr" where
  "strip s = rev (dropWhile py_isspace (rev (dropWhile py_isspace s)))"

text \<open>\<^verbatim>\<open>d.get(k, default)\<close> and \<^verbatim>\<open>d[k] = v\<close> on a \<^verbatim>\<open>dict\<close>.\<close>

definition dict_get :: "pydict \<Rightarrow> pystr \<Rightarrow> json \<Rightarrow> json" where
  "dict_get d k dflt = (case map_of d k of None \<Rightarrow> dflt | Some v \<Rightarrow> v)"

definition dict_set :: "pydict \<Rightarrow> pystr \<Rightarrow> json \<Rightarrow> pydict" where
  "dict_set d k v = AList.update k v d"

text \<open>
  \<^verbatim>\<open>float(v)\<close>; \<open>None\<close> stands for the exception it raises (\<^verbatim>\<open>TypeError\<close> on
  \<^verbatim>\<open>None\<close>, a list or a dict, \<^verbatim>\<open>ValueError\<close> on a string that is no number,
  \<^verbatim>\<open>OverflowError\<close> on an integer that rounds beyond the largest double). A finite result
  keeps the exact value of an integer: rounding to a double is monotone and leaves
  \<open>-180, -90, 90, 180\<close> fixed, so the range tests below see the same order.
\<close>

definition float_overflow :: int where
  "float_overflow = 2 ^ 1024 - 2 ^ 970"

definition to_float :: "env \<Rightarrow> json \<Rightarrow> pyfloat option" where
  "to_float E v =
     (case v of
        JInt n \<Rightarrow> if \<bar>n\<bar> < float_overflow then Some (Fin (of_int n)) else None
      | JFloat x \<Rightarrow> Some x
      | JBool b \<Rightarrow> Some (Fin (if b then 1 else 0))
      | JStr s \<Rightarrow> float_of_str E s
      | JNull \<Rightarrow> None
      | JList xs \<Rightarrow> None
      | JObj d \<Rightarrow> None)"

text \<open>
  What a line or a file holds beyond ASCII. \<^verbatim>\<open>repr\<close> of a value copies the printable
  code points of the strings in it and escapes the others; its digits, brackets, quotes
  and escapes are ASCII. An f-string shows a \<^verbatim>\<open>str\<close> as it is and any other value by
  its \<^verbatim>\<open>repr\<close>. \<^verbatim>\<open>json.dumps\<close> with \<^verbatim>\<open>ensure_ascii=False\<close> copies every code point of
  every key and string but the ASCII ones it escapes.
\<close>

fun repr_text :: "env \<Rightarrow> json \<Rightarrow> pystr" where
  "repr_text E (JStr s) = filter (isprintable E) s"
| "repr_text E (JList xs) = concat (map (repr_text E) xs)"
| "repr_text E (JObj kvs) =
     concat (map (\<lambda>kv. filter (isprintable E) (fst kv) @ repr_text E (snd kv)) kvs)"
| "repr_text E v = []"

definition str_text :: "env \<Rightarrow> json \<Rightarrow> pystr" where
  "str_text E v = (case v of JStr s \<Rightarrow> s | _ \<Rightarrow> repr_text E v)"

fun dumps_text :: "json \<Rightarrow> pystr" where
  "dumps_text (JStr s) = s"
| "dumps_text (JList xs) = concat (map dumps_text xs)"
| "dumps_text (JObj kvs) = concat (map (\<lambda>kv. fst kv @ dumps_text (snd kv)) kvs)"
| "dumps_text v = []"

text \<open>
  \<^verbatim>\<open>print\<close> and \<^verbatim>\<open>write_text\<close> encode the whole text before they write any of it, and
  raise \<^verbatim>\<open>UnicodeEncodeError\<close> when a code point cannot be encoded. ASCII can always be
  encoded.
\<close>

definition can_print :: "env \<Rightarrow> pystr \<Rightarrow> bool" where
  "can_print E txt = list_all (\<lambda>c. c < 128 \<or> stdout_encodes E c) txt"

definition can_write :: "env \<Rightarrow> pystr \<Rightarrow> bool" where
  "can_write E txt = list_all (\<lambda>c. c < 128 \<or> file_encodes E c) txt"

text \<open>\<^verbatim>\<open>lo <= x <= hi\<close> for integer bounds: false on NaN and on the infinities.\<close>

definition in_range :: "int \<Rightarrow> int \<Rightarrow> pyfloat \<Rightarrow> bool" where
  "in_range lo hi x = (case x of Fin q \<Rightarrow> of_int lo \<le> q \<and> q \<le> of_int hi | _ \<Rightarrow> False)"

section \<open>The program\<close>

definition REQUIRED_FIELDS :: "pystr list" where
  "REQUIRED_FIELDS =
     map py [''number'', ''name'', ''lat'', ''lon'', ''arrival'', ''departure'',
             ''duration'', ''distance'', ''type'', ''link'', ''season'']"

text \<open>
  \<^verbatim>\<open>parse_date\<close>: \<^verbatim>\<open>fromisoformat\<close> raises \<^verbatim>\<open>TypeError\<close> on a value that is no
  string and \<^verbatim>\<open>ValueError\<close> on a string it cannot read; both are caught.
\<close>

definition parse_date :: "env \<Rightarrow> json \<Rightarrow> datetime option" where
  "parse_date E v = (case v of JStr s \<Rightarrow> fromisoformat E s | _ \<Rightarrow> None)"

text \<open>
  \<^verbatim>\<open>remove_emojis\<close>: the pattern \<^verbatim>\<open>[\U00010000-\U0010ffff]\<close> deletes every code point
  of the supplementary planes. The pattern compiles and \<^verbatim>\<open>sub\<close> accepts every
  \<^verbatim>\<open>str\<close>, which is all \<^verbatim>\<open>main\<close> passes, so the \<^verbatim>\<open>except\<close> branch is never taken.
\<close>

definition remove_emojis :: "pystr \<Rightarrow> pystr" where
  "remove_emojis text = filter (\<lambda>c. \<not> (65536 \<le> c \<and> c \<le> 1114111)) text"

text \<open>
  The state of one pass through the loop body: the flag \<^verbatim>\<open>row_ok\<close>, the lines printed
  so far, the item (mutated in place by the source) and the exception that ended the
  pass, if one did.
\<close>

record 'a row_state =
  row_ok :: bool
  printed :: "diag list"
  item :: 'a
  raised :: "exn option"

text \<open>Lines 59 to 62: the required fields.\<close>

definition missing_fields :: "pydict \<Rightarrow> pystr list" where
  "missing_fields d = filter (\<lambda>f. map_of d f = None) REQUIRED_FIELDS"

definition check_required :: "nat \<Rightarrow> pydict row_state \<Rightarrow> pydict row_state" where
  "check_required i s =
     (let missing = missing_fields (item s) in
      if missing \<noteq> [] then s\<lparr>printed := printed s @ [MissingFields i missing], row_ok := False\<rparr>
      else s)"

text \<open>
  Lines 65 to 76: the coordinates. An exception of either \<^verbatim>\<open>float\<close> call skips both
  range tests and reaches the handler. The handler's line shows the two values as they
  are (\<^verbatim>\<open>None\<close> for an absent one); when it cannot be encoded, \<^verbatim>\<open>print\<close> raises inside
  the handler, before \<^verbatim>\<open>row_ok = False\<close>, and the exception leaves \<^verbatim>\<open>main\<close>. The lines of
  the range tests show floats only.
\<close>

definition shown :: "env \<Rightarrow> json option \<Rightarrow> pystr" where
  "shown E v = (case v of None \<Rightarrow> [] | Some x \<Rightarrow> str_text E x)"

definition not_numeric :: "env \<Rightarrow> nat \<Rightarrow> pydict row_state \<Rightarrow> pydict row_state" where
  "not_numeric E i s =
     (if can_print E (shown E (map_of (item s) (py ''lat'')) @ shown E (map_of (item s) (py ''lon'')))
      then s\<lparr>printed := printed s @
                 [LatLonNotNumeric i (map_of (item s) (py ''lat'')) (map_of (item s) (py ''lon''))],
              row_ok := False\<rparr>
      else s\<lparr>raised := Some UnicodeEncodeError\<rparr>)"

definition check_latlon :: "env \<Rightarrow> nat \<Rightarrow> pydict row_state \<Rightarrow> pydict row_state" where
  "check_latlon E i s =
     (case to_float E (dict_get (item s) (py ''lat'') (JInt 0)) of
        None \<Rightarrow> not_numeric E i s
      | Some lat \<Rightarrow>
         (case to_float E (dict_get (item s) (py ''lon'') (JInt 0)) of
            None \<Rightarrow> not_numeric E i s
          | Some lon \<Rightarrow>
             (let s1 = (if \<not> in_range (-90) 90 lat
                        then s\<lparr>printed := printed s @ [LatOutOfRange i], row_ok := False\<rparr>
                        else s);
                  s2 = (if \<not> in_range (-180) 180 lon
                        then s1\<lparr>printed := printed s1 @ [LonOutOfRange i], row_ok := False\<rparr>
                        else s1)
              in s2)))"

text \<open>
  Lines 79 to 91: the dates. The comparison \<^verbatim>\<open>arrival > departure\<close> is outside every
  \<^verbatim>\<open>try\<close>: its \<^verbatim>\<open>TypeError\<close> leaves \<^verbatim>\<open>main\<close>. The line of an inverted pair shows
  the two raw strings; when it cannot be encoded, \<^verbatim>\<open>print\<close> raises before the swap and
  before \<^verbatim>\<open>row_ok = False\<close>.
\<close>

definition check_dates :: "env \<Rightarrow> bool \<Rightarrow> nat \<Rightarrow> pydict row_state \<Rightarrow> pydict row_state" where
  "check_dates E fix i s =
     (let arrival_raw = dict_get (item s) (py ''arrival'') (JStr []);
          departure_raw = dict_get (item s) (py ''departure'') (JStr [])
      in case parse_date E arrival_raw of
           None \<Rightarrow> s
         | Some arrival \<Rightarrow>
            (case parse_date E departure_raw of
               None \<Rightarrow> s
             | Some departure \<Rightarrow>
                (case dt_gt arrival departure of
                   Inl e \<Rightarrow> s\<lparr>raised := Some e\<rparr>
                 | Inr False \<Rightarrow> s
                 | Inr True \<Rightarrow>
                    (if \<not> can_print E (str_text E arrival_raw @ str_text E departure_raw)
                     then s\<lparr>raised := Some UnicodeEncodeError\<rparr>
                     else if fix
                     then s\<lparr>printed := printed s @
                                [ArrivalAfterDeparture i arrival_raw departure_raw, SwappingDates i],
                             item := dict_set (dict_set (item s) (py ''arrival'') departure_raw)
                                       (py ''departure'') arrival_raw\<rparr>
                     else s\<lparr>printed := printed s @
                                [ArrivalAfterDeparture i arrival_raw departure_raw],
                             row_ok := False\<rparr>))))"

text \<open>
  Lines 94 to 107: the link. Both tests read the local \<^verbatim>\<open>link\<close>, fetched once before
  the first of them.
\<close>

definition check_placeholder :: "bool \<Rightarrow> nat \<Rightarrow> json \<Rightarrow> pydict row_state \<Rightarrow> pydict row_state" where
  "check_placeholder fix i link s =
     (case link of
        JStr l \<Rightarrow>
          (if contains (py ''User to research'') l
           then (if fix
                 then s\<lparr>printed := printed s @ [PlaceholderInLink i, ClearedPlaceholderLink i],
                         item := dict_set (item s) (py ''link'') (JStr [])\<rparr>
                 else s\<lparr>printed := printed s @ [PlaceholderInLink i], row_ok := False\<rparr>)
           else s)
      | _ \<Rightarrow> s)"

definition check_suspicious :: "bool \<Rightarrow> nat \<Rightarrow> json \<Rightarrow> pydict row_state \<Rightarrow> pydict row_state" where
  "check_suspicious fix i link s =
     (case link of
        JStr l \<Rightarrow>
          (if \<not> contains (py ''http'') l \<and> length l > 200
           then (if fix
                 then s\<lparr>printed := printed s @ [SuspiciousLink i],
                         item := dict_set (item s) (py ''link'') (JStr [])\<rparr>
                 else s\<lparr>printed := printed s @ [SuspiciousLink i], row_ok := False\<rparr>)
           else s)
      | _ \<Rightarrow> s)"

definition check_link :: "bool \<Rightarrow> nat \<Rightarrow> pydict row_state \<Rightarrow> pydict row_state" where
  "check_link fix i s =
     (let link = dict_get (item s) (py ''link'') (JStr [])
      in check_suspicious fix i link (check_placeholder fix i link s))"

text \<open>
  Lines 110 to 114: in fix mode every string value is replaced by itself without
  supplementary-plane code points and then stripped. The loop runs over a snapshot of the
  items and assigns into the dict.
\<close>

definition normalize_text :: "pystr \<Rightarrow> pystr" where
  "normalize_text v = strip (remove_emojis v)"

definition normalize_entry :: "pystr \<times> json \<Rightarrow> pydict \<Rightarrow> pydict" where
  "normalize_entry kv d =
     (case snd kv of JStr v \<Rightarrow> dict_set d (fst kv) (JStr (normalize_text v)) | _ \<Rightarrow> d)"

definition normalize_item :: "bool \<Rightarrow> pydict row_state \<Rightarrow> pydict row_state" where
  "normalize_item fix s = (if fix then s\<lparr>item := fold normalize_entry (item s) (item s)\<rparr> else s)"

text \<open>A statement that follows a raised exception is not run.\<close>

definition unless_raised :: "('a row_state \<Rightarrow> 'a row_state) \<Rightarrow> 'a row_state \<Rightarrow> 'a row_state" where
  "unless_raised f s = (case raised s of None \<Rightarrow> f s | Some e \<Rightarrow> s)"

text \<open>The loop body (lines 58 to 114) on an item that is a dict, and the state it starts in.\<close>

definition start :: "pydict \<Rightarrow> pydict row_state" where
  "start d = \<lparr>row_ok = True, printed = [], item = d, raised = None\<rparr>"

definition process_record :: "env \<Rightarrow> bool \<Rightarrow> nat \<Rightarrow> pydict \<Rightarrow> pydict row_state" where
  "process_record E fix i d =
     unless_raised (normalize_item fix)
       (unless_raised (check_link fix i)
         (unless_raised (check_dates E fix i)
           (check_latlon E i (check_required i (start d)))))"

text \<open>
  The loop body on any item. On a list or a string \<^verbatim>\<open>f not in item\<close> is defined
  (membership, and substring), and \<^verbatim>\<open>item.get\<close> then raises \<^verbatim>\<open>AttributeError\<close>,
  once inside the \<^verbatim>\<open>try\<close> and again in its handler before anything is printed. On
  \<^verbatim>\<open>None\<close>, a boolean or a number \<^verbatim>\<open>f not in item\<close> raises \<^verbatim>\<open>TypeError\<close>.
\<close>

definition no_get :: "nat \<Rightarrow> json \<Rightarrow> pystr list \<Rightarrow> json row_state" where
  "no_get i it missing =
     \<lparr>row_ok = (missing = []),
      printed = (if missing \<noteq> [] then [MissingFields i missing] else []),
      item = it, raised = Some AttributeError\<rparr>"

definition process_row :: "env \<Rightarrow> bool \<Rightarrow> nat \<Rightarrow> json \<Rightarrow> json row_state" where
  "process_row E fix i it =
     (case it of
        JObj d \<Rightarrow>
          (let s = process_record E fix i d
           in \<lparr>row_ok = row_ok s, printed = printed s, item = JObj (item s), raised = raised s\<rparr>)
      | JList xs \<Rightarrow> no_get i it (filter (\<lambda>f. JStr f \<notin> set xs) REQUIRED_FIELDS)
      | JStr t \<Rightarrow> no_get i it (filter (\<lambda>f. \<not> contains f t) REQUIRED_FIELDS)
      | _ \<Rightarrow> \<lparr>row_ok = True, printed = [], item = it, raised = Some TypeError\<rparr>)"

text \<open>
  The loop of lines 55 to 118: \<open>ok\<close>, \<open>cleaned\<close> and the printed lines are threaded
  through; an exception ends the loop and leaves the items not yet visited as they are.
\<close>

record loop_state =
  ok :: bool
  cleaned :: "json list"
  lines :: "diag list"
  failure :: "exn option"
  unvisited :: "json list"

fun rows :: "env \<Rightarrow> bool \<Rightarrow> nat \<Rightarrow> json list \<Rightarrow> loop_state \<Rightarrow> loop_state" where
  "rows E fix i [] st = st"
| "rows E fix i (it # rest) st =
     (let r = process_row E fix i it
      in case raised r of
           Some e \<Rightarrow> st\<lparr>lines := lines st @ printed r, failure := Some e,
                        unvisited := item r # rest\<rparr>
         | None \<Rightarrow>
             rows E fix (Suc i) rest
               (st\<lparr>lines := lines st @ printed r, cleaned := cleaned st @ [item r],
                   ok := (ok st \<and> row_ok r)\<rparr>))"

text \<open>
  What a call of \<^verbatim>\<open>main\<close> leaves behind: the printed lines, how the call ended, the
  file written (at most one), and the list \<^verbatim>\<open>data\<close> as it stands in memory at the end.
  A file that was written holds either the text \<^verbatim>\<open>json.dumps\<close> made of a list, with the
  indent and the \<^verbatim>\<open>ensure_ascii\<close> of the call, or nothing: \<^verbatim>\<open>write_text\<close> opens the file
  for writing, which empties it, before it encodes the text.
\<close>

datatype outcome = Returned nat | Uncaught exn

datatype file_text = Emptied | Dumps "json list" nat bool

record out_file =
  out_path :: path
  out_text :: file_text

record run =
  stdout :: "diag list"
  result :: outcome
  written :: "out_file option"
  data_after :: "json list"

text \<open>
  Lines 120 to 130, after a loop that ran to its end. When the text of line 122 cannot be
  encoded, \<^verbatim>\<open>write_text\<close> raises with the file emptied, and neither line 123 nor the summary
  is reached. The paths of lines 47 and 123 are taken to be text the output stream
  encodes.
\<close>

definition finish :: "env \<Rightarrow> path \<Rightarrow> bool \<Rightarrow> bool \<Rightarrow> loop_state \<Rightarrow> run" where
  "finish E p fix inplace st =
     (let out = (if inplace then p else with_name p (stem p @ py ''.fixed'' @ suffix p));
          writes = (fix \<and> cleaned st \<noteq> [])
      in if writes \<and> \<not> can_write E (concat (map dumps_text (cleaned st)))
         then \<lparr>stdout = lines st, result = Uncaught UnicodeEncodeError,
               written = Some \<lparr>out_path = out, out_text = Emptied\<rparr>,
               data_after = cleaned st\<rparr>
         else \<lparr>stdout = lines st @ (if writes then [WroteCleanedOutput out] else [])
                        @ [if ok st then ValidationPassed else ValidationFailed],
               result = Returned (if ok st then 0 else 1),
               written = (if writes then Some \<lparr>out_path = out, out_text = Dumps (cleaned st) 2 False\<rparr>
                          else None),
               data_after = cleaned st\<rparr>)"

definition main :: "env \<Rightarrow> path \<Rightarrow> bool \<Rightarrow> bool \<Rightarrow> run" where
  "main E p fix inplace =
     (case read_text E p of
        None \<Rightarrow> \<lparr>stdout = [FileNotFound p], result = Returned 1, written = None, data_after = []\<rparr>
      | Some text \<Rightarrow>
         (case json_loads E text of
            None \<Rightarrow> \<lparr>stdout = [], result = Uncaught JSONDecodeError, written = None,
                      data_after = []\<rparr>
          | Some (JList its) \<Rightarrow>
             (let st = rows E fix 1 its
                         \<lparr>ok = True, cleaned = [], lines = [], failure = None, unvisited = []\<rparr>
              in case failure st of
                   Some e \<Rightarrow> \<lparr>stdout = lines st, result = Uncaught e, written = None,
                               data_after = cleaned st @ unvisited st\<rparr>
                 | None \<Rightarrow> finish E p fix inplace st)
          | Some v \<Rightarrow> \<lparr>stdout = [NotAList], result = Returned 1, written = None,
                        data_after = []\<rparr>))"

text \<open>
  The script's last line, \<^verbatim>\<open>sys.exit(main(...))\<close>: the process ends with the status
  \<^verbatim>\<open>main\<close> returned, and with status 1 and a traceback when an exception left
  \<^verbatim>\<open>main\<close>.
\<close>

definition exit_status :: "run \<Rightarrow> nat" where
  "exit_status r = (case result r of Returned n \<Rightarrow> n | Uncaught e \<Rightarrow> 1)"


section \<open>Sample inputs\<close>

text \<open>
  An environment to run the program in: the file \<^verbatim>\<open>tests/tmp/data.json\<close> exists and
  \<^verbatim>\<open>json.loads\<close> reads its text as \<open>v\<close> (\<open>None\<close>: the text is not JSON); no other file
  exists. The two library parsers are given by the table of the strings the samples
  use, with the values CPython returns for them; every other string is rejected. Both
  encodings are UTF-8, which encodes every code point but the surrogates (U+D800 to
  U+DFFF), and \<^verbatim>\<open>str.isprintable\<close> is given on the code points the samples use.
\<close>

definition sample_path :: path where
  "sample_path = \<lparr>path_parent = py ''tests/tmp'', path_name = py ''data.json''\<rparr>"

definition sample_dates :: "(pystr \<times> datetime) list" where
  "sample_dates =
     [(py ''2026-07-01'', Naive 63918460800000000),
      (py ''2026-07-02'', Naive 63918547200000000),
      (py ''2026-07-05'', Naive 63918806400000000),
      (py ''2026-07-02T00:00:00+00:00'', Aware 63918547200000000),
      (py ''2026-07-05'' @ [55296] @ py ''10:00:00'', Naive 63918842400000000),
      (py ''2026-07-05'' @ [128512] @ py ''10:00:00'', Naive 63918842400000000)]"

definition sample_floats :: "(pystr \<times> pyfloat) list" where
  "sample_floats = [(py ''45.5'', Fin (91 / 2)), (py ''nan'', NaN)]"

definition sample_env :: "json option \<Rightarrow> env" where
  "sample_env v =
     \<lparr>read_text = (\<lambda>p. if p = sample_path then Some (py ''(the text of data.json)'') else None),
      json_loads = (\<lambda>t. v),
      float_of_str = map_of sample_floats,
      fromisoformat = map_of sample_dates,
      stdout_encodes = (\<lambda>c. \<not> (55296 \<le> c \<and> c \<le> 57343)),
      file_encodes = (\<lambda>c. \<not> (55296 \<le> c \<and> c \<le> 57343)),
      isprintable = (\<lambda>c. (32 \<le> c \<and> c < 127) \<or> c = 128512)\<rparr>"

text \<open>The two records of the repository's test harness, \<^verbatim>\<open>good_data\<close> and \<^verbatim>\<open>bad_data\<close>.\<close>

definition good_record :: pydict where
  "good_record =
     [(py ''number'', JInt 1), (py ''name'', JStr (py ''A'')), (py ''lat'', JInt 45),
      (py ''lon'', JInt 12), (py ''arrival'', JStr (py ''2026-07-01'')),
      (py ''departure'', JStr (py ''2026-07-02'')), (py ''duration'', JStr (py ''1 day'')),
      (py ''distance'', JStr (py ''10 km'')), (py ''type'', JStr (py ''Marina'')),
      (py ''link'', JStr (py ''https://example.com'')), (py ''season'', JStr (py ''summer''))]"

definition bad_record :: pydict where
  "bad_record =
     [(py ''number'', JInt 1), (py ''name'', JStr (py ''B'')), (py ''lat'', JInt 95),
      (py ''lon'', JInt 12), (py ''arrival'', JStr (py ''2026-07-05'')),
      (py ''departure'', JStr (py ''2026-07-01'')), (py ''duration'', JStr (py ''1 day'')),
      (py ''distance'', JStr (py ''10 km'')), (py ''type'', JStr (py ''Marina'')),
      (py ''link'', JStr (py ''User to research'')), (py ''season'', JStr (py ''summer''))]"

text \<open>
  Two more records: one with both coordinates out of range and most fields missing, one
  whose arrival is no ISO-8601 string.
\<close>

definition far_record :: pydict where
  "far_record = [(py ''name'', JStr (py ''C'')), (py ''lat'', JInt 95), (py ''lon'', JInt 200)]"

definition undated_record :: pydict where
  "undated_record = [(py ''name'', JStr (py ''D'')), (py ''arrival'', JStr (py ''next week'')),
                     (py ''departure'', JStr (py ''2026-07-01''))]"

text \<open>A path at which the sample environment has no file.\<close>

definition other_path :: path where
  "other_path = \<lparr>path_parent = py ''tests/tmp'', path_name = py ''absent.json''\<rparr>"

text \<open>Two records without a latitude: one with a longitude of 200, one with a longitude that is no number.\<close>

definition lon_only_record :: pydict where
  "lon_only_record = [(py ''name'', JStr (py ''E'')), (py ''lon'', JInt 200)]"

definition lon_text_record :: pydict where
  "lon_text_record = [(py ''name'', JStr (py ''F'')), (py ''lon'', JStr (py ''east''))]"

text \<open>The good record with another link, and a link that hides the placeholder behind an emoji (U+1F600).\<close>

definition with_link :: "pystr \<Rightarrow> pydict" where
  "with_link l = dict_set good_record (py ''link'') (JStr l)"

definition emoji_link :: pystr where
  "emoji_link = py ''User to '' @ [128512] @ py ''research''"

text \<open>
  A record with every field in place whose arrival carries a UTC offset and whose
  departure does not, and whose link is the placeholder.
\<close>

definition crash_record :: pydict where
  "crash_record =
     [(py ''number'', JInt 1), (py ''name'', JStr (py ''G'')), (py ''lat'', JInt 45),
      (py ''lon'', JInt 12), (py ''arrival'', JStr (py ''2026-07-02T00:00:00+00:00'')),
      (py ''departure'', JStr (py ''2026-07-01'')), (py ''duration'', JStr (py ''1 day'')),
      (py ''distance'', JStr (py ''10 km'')), (py ''type'', JStr (py ''Marina'')),
      (py ''link'', JStr (py ''User to research'')), (py ''season'', JStr (py ''summer''))]"

text \<open>
  Records with a lone surrogate (U+D800, which \<^verbatim>\<open>json.loads\<close> reads from the escape
  \<^verbatim>\<open>\ud800\<close>): the bad record's dates with the surrogate between date and time of the
  arrival, which \<^verbatim>\<open>fromisoformat\<close> accepts as the separator; a record without a latitude
  whose longitude is the surrogate; the good record with the surrogate in its name; the
  bad record's dates with the surrogate for the longitude. And the first of them with an
  emoji (U+1F600) for the surrogate.
\<close>

definition surrogate_dates_record :: pydict where
  "surrogate_dates_record =
     [(py ''number'', JInt 1), (py ''name'', JStr (py ''B'')), (py ''lat'', JInt 45),
      (py ''lon'', JInt 12), (py ''arrival'', JStr (py ''2026-07-05'' @ [55296] @ py ''10:00:00'')),
      (py ''departure'', JStr (py ''2026-07-01'')), (py ''duration'', JStr (py ''1 day'')),
      (py ''distance'', JStr (py ''10 km'')), (py ''type'', JStr (py ''Marina'')),
      (py ''link'', JStr (py ''https://example.com'')), (py ''season'', JStr (py ''summer''))]"

definition lon_surrogate_record :: pydict where
  "lon_surrogate_record = [(py ''name'', JStr (py ''H'')), (py ''lon'', JStr [55296])]"

definition surrogate_name_record :: pydict where
  "surrogate_name_record = dict_set good_record (py ''name'') (JStr (py ''A'' @ [55296]))"

definition surrogate_lon_record :: pydict where
  "surrogate_lon_record =
     [(py ''number'', JInt 1), (py ''name'', JStr (py ''B'')), (py ''lat'', JInt 45),
      (py ''lon'', JStr [55296]), (py ''arrival'', JStr (py ''2026-07-05'')),
      (py ''departure'', JStr (py ''2026-07-01'')), (py ''duration'', JStr (py ''1 day'')),
      (py ''distance'', JStr (py ''10 km'')), (py ''type'', JStr (py ''Marina'')),
      (py ''link'', JStr (py ''https://example.com'')), (py ''season'', JStr (py ''summer''))]"

definition emoji_dates_record :: pydict where
  "emoji_dates_record =
     [(py ''number'', JInt 1), (py ''name'', JStr (py ''B'')), (py ''lat'', JInt 45),
      (py ''lon'', JInt 12), (py ''arrival'', JStr (py ''2026-07-05'' @ [128512] @ py ''10:00:00'')),
      (py ''departure'', JStr (py ''2026-07-01'')), (py ''duration'', JStr (py ''1 day'')),
      (py ''distance'', JStr (py ''10 km'')), (py ''type'', JStr (py ''Marina'')),
      (py ''link'', JStr (py ''https://example.com'')), (py ''season'', JStr (py ''summer''))]"

section \<open>Notions the properties are stated with\<close>

text \<open>
  The invariants of a valid record: every required field is there, both coordinates
  coerce and lie in range, \<^verbatim>\<open>arrival <= departure\<close> holds whenever both dates parse
  (so the two are of one kind: Python orders no naive date against an aware one), and a
  link that is a string holds no placeholder and either holds \<^verbatim>\<open>http\<close> or has at most
  200 code points.
\<close>

definition valid_record :: "env \<Rightarrow> pydict \<Rightarrow> bool" where
  "valid_record E d =
     (missing_fields d = [] \<and>
      (case to_float E (dict_get d (py ''lat'') (JInt 0)) of
         None \<Rightarrow> False | Some lat \<Rightarrow> in_range (-90) 90 lat) \<and>
      (case to_float E (dict_get d (py ''lon'') (JInt 0)) of
         None \<Rightarrow> False | Some lon \<Rightarrow> in_range (-180) 180 lon) \<and>
      (case parse_date E (dict_get d (py ''arrival'') (JStr [])) of
         None \<Rightarrow> True
       | Some a \<Rightarrow>
          (case parse_date E (dict_get d (py ''departure'') (JStr [])) of
             None \<Rightarrow> True | Some b \<Rightarrow> dt_le a b = Inr True)) \<and>
      (case dict_get d (py ''link'') (JStr []) of
         JStr l \<Rightarrow> \<not> contains (py ''User to research'') l
                    \<and> (contains (py ''http'') l \<or> length l \<le> 200)
       | _ \<Rightarrow> True))"

text \<open>
  A dict with the text normalisation of lines 110 to 114 applied to each of its string
  values, written as one pass over the entries.
\<close>

definition normalize_value :: "json \<Rightarrow> json" where
  "normalize_value v = (case v of JStr t \<Rightarrow> JStr (normalize_text t) | _ \<Rightarrow> v)"

definition normalized :: "pydict \<Rightarrow> pydict" where
  "normalized d = map (\<lambda>kv. (fst kv, normalize_value (snd kv))) d"

text \<open>The lines that report missing fields.\<close>

fun is_missing_line :: "diag \<Rightarrow> bool" where
  "is_missing_line (MissingFields i m) = True"
| "is_missing_line _ = False"

text \<open>The lines the coordinate check can print.\<close>

fun is_coord_line :: "diag \<Rightarrow> bool" where
  "is_coord_line (LatOutOfRange i) = True"
| "is_coord_line (LonOutOfRange i) = True"
| "is_coord_line (LatLonNotNumeric i a b) = True"
| "is_coord_line _ = False"


section \<open>Properties of the single checks\<close>

lemma dt_le_True_gt: "dt_le a b = Inr True \<Longrightarrow> dt_gt a b = Inr False"
  by (cases a; cases b) auto

lemma dt_gt_True_le: "dt_gt a b = Inr True \<Longrightarrow> dt_le b a = Inr True"
  by (cases a; cases b) auto

subsection \<open>The completeness check\<close>

lemma check_required_item [simp]: "item (check_required i s) = item s"
  by (simp add: check_required_def Let_def)

lemma check_required_raised [simp]: "raised (check_required i s) = raised s"
  by (simp add: check_required_def Let_def)

lemma check_required_printed:
  "printed (check_required i s) =
     printed s @ (if missing_fields (item s) \<noteq> [] then [MissingFields i (missing_fields (item s))] else [])"
  by (simp add: check_required_def Let_def)

lemma check_required_row_ok:
  "row_ok (check_required i s) = (row_ok s \<and> missing_fields (item s) = [])"
  by (simp add: check_required_def Let_def)

subsection \<open>The coordinate check\<close>

lemma check_latlon_item [simp]: "item (check_latlon E i s) = item s"
  by (simp add: check_latlon_def not_numeric_def Let_def split: option.splits)

lemma shown_None [simp]: "shown E None = []"
  by (simp add: shown_def)

lemma can_print_Nil [simp]: "can_print E []"
  by (simp add: can_print_def)

lemma check_latlon_raised:
  "raised (check_latlon E i s) =
     (if (to_float E (dict_get (item s) (py ''lat'') (JInt 0)) = None
          \<or> to_float E (dict_get (item s) (py ''lon'') (JInt 0)) = None)
         \<and> \<not> can_print E (shown E (map_of (item s) (py ''lat'')) @ shown E (map_of (item s) (py ''lon'')))
      then Some UnicodeEncodeError else raised s)"
  by (simp add: check_latlon_def not_numeric_def Let_def split: option.splits)

lemma check_latlon_keeps: "set (printed s) \<subseteq> set (printed (check_latlon E i s))"
  by (auto simp add: check_latlon_def not_numeric_def Let_def split: option.splits)

lemma check_latlon_row_ok: "row_ok (check_latlon E i s) \<Longrightarrow> row_ok s"
  by (auto simp add: check_latlon_def not_numeric_def Let_def split: option.splits if_splits)

lemma check_latlon_filter:
  assumes "\<not> P (LatOutOfRange i)" "\<not> P (LonOutOfRange i)" "\<And>a b. \<not> P (LatLonNotNumeric i a b)"
  shows "filter P (printed (check_latlon E i s)) = filter P (printed s)"
  using assms by (simp add: check_latlon_def not_numeric_def Let_def split: option.splits)

subsection \<open>The date check\<close>

lemma check_dates_keeps: "set (printed s) \<subseteq> set (printed (check_dates E fix i s))"
  by (auto simp add: check_dates_def Let_def split: option.splits sum.splits bool.splits)

lemma check_dates_row_ok: "row_ok (check_dates E fix i s) \<Longrightarrow> row_ok s"
  by (auto simp add: check_dates_def Let_def split: option.splits sum.splits bool.splits if_splits)

lemma check_dates_filter:
  assumes "\<And>a b. \<not> P (ArrivalAfterDeparture i a b)" "\<not> P (SwappingDates i)"
  shows "filter P (printed (check_dates E fix i s)) = filter P (printed s)"
  using assms by (simp add: check_dates_def Let_def split: option.splits sum.splits bool.splits)

lemma check_dates_nofix_item [simp]: "item (check_dates E False i s) = item s"
  by (simp add: check_dates_def Let_def split: option.splits sum.splits bool.splits)

subsection \<open>The link check\<close>

lemma check_link_raised [simp]: "raised (check_link fix i s) = raised s"
  by (simp add: check_link_def check_placeholder_def check_suspicious_def Let_def split: json.splits)

lemma check_link_keeps: "set (printed s) \<subseteq> set (printed (check_link fix i s))"
  by (auto simp add: check_link_def check_placeholder_def check_suspicious_def Let_def split: json.splits)

lemma check_link_row_ok: "row_ok (check_link fix i s) \<Longrightarrow> row_ok s"
  by (auto simp add: check_link_def check_placeholder_def check_suspicious_def Let_def split: json.splits if_splits)

lemma check_link_fix_row_ok [simp]: "row_ok (check_link True i s) = row_ok s"
  by (simp add: check_link_def check_placeholder_def check_suspicious_def Let_def split: json.splits)

lemma check_link_filter:
  assumes "\<not> P (PlaceholderInLink i)" "\<not> P (ClearedPlaceholderLink i)" "\<not> P (SuspiciousLink i)"
  shows "filter P (printed (check_link fix i s)) = filter P (printed s)"
  using assms by (simp add: check_link_def check_placeholder_def check_suspicious_def Let_def split: json.splits)

lemma check_link_nofix_item [simp]: "item (check_link False i s) = item s"
  by (simp add: check_link_def check_placeholder_def check_suspicious_def Let_def split: json.splits)

subsection \<open>The text normalisation step\<close>

lemma normalize_item_printed [simp]: "printed (normalize_item fix s) = printed s"
  by (simp add: normalize_item_def)

lemma normalize_item_row_ok [simp]: "row_ok (normalize_item fix s) = row_ok s"
  by (simp add: normalize_item_def)

lemma normalize_item_raised [simp]: "raised (normalize_item fix s) = raised s"
  by (simp add: normalize_item_def)

lemma normalize_item_nofix [simp]: "normalize_item False s = s"
  by (simp add: normalize_item_def)

subsection \<open>Steps skipped after an exception\<close>

lemma unless_raised_None: "raised s = None \<Longrightarrow> unless_raised f s = f s"
  by (simp add: unless_raised_def)

lemma unless_raised_Some: "raised s = Some e \<Longrightarrow> unless_raised f s = s"
  by (simp add: unless_raised_def)

lemma unless_raised_keeps:
  "(\<And>t. set (printed t) \<subseteq> set (printed (f t))) \<Longrightarrow> set (printed s) \<subseteq> set (printed (unless_raised f s))"
  by (simp add: unless_raised_def split: option.splits)

lemma unless_raised_row_ok:
  "(\<And>t. row_ok (f t) \<Longrightarrow> row_ok t) \<Longrightarrow> row_ok (unless_raised f s) \<Longrightarrow> row_ok s"
  by (simp add: unless_raised_def split: option.splits)

lemma unless_raised_filter:
  "(\<And>t. filter P (printed (f t)) = filter P (printed t)) \<Longrightarrow>
   filter P (printed (unless_raised f s)) = filter P (printed s)"
  by (simp add: unless_raised_def split: option.splits)

subsection \<open>What follows the date check\<close>

lemma after_dates_keeps:
  "set (printed s) \<subseteq> set (printed (unless_raised (normalize_item fix) (unless_raised (check_link fix i) s)))"
proof -
  have "set (printed s) \<subseteq> set (printed (unless_raised (check_link fix i) s))"
    by (rule unless_raised_keeps) (rule check_link_keeps)
  also have "\<dots> \<subseteq> set (printed (unless_raised (normalize_item fix) (unless_raised (check_link fix i) s)))"
    by (rule unless_raised_keeps) simp
  finally show ?thesis .
qed

lemma after_dates_row_ok:
  "row_ok (unless_raised (normalize_item fix) (unless_raised (check_link fix i) s)) \<Longrightarrow> row_ok s"
proof -
  assume a: "row_ok (unless_raised (normalize_item fix) (unless_raised (check_link fix i) s))"
  have "row_ok (unless_raised (check_link fix i) s)"
    by (rule unless_raised_row_ok[OF _ a]) simp
  then show "row_ok s"
    by (rule unless_raised_row_ok[rotated]) (rule check_link_row_ok)
qed

subsection \<open>Inputs on which a check changes nothing\<close>

lemma check_required_valid: "missing_fields (item s) = [] \<Longrightarrow> check_required i s = s"
  by (simp add: check_required_def)

lemma check_latlon_valid:
  "to_float E (dict_get (item s) (py ''lat'') (JInt 0)) = Some lat \<Longrightarrow>
   to_float E (dict_get (item s) (py ''lon'') (JInt 0)) = Some lon \<Longrightarrow>
   in_range (-90) 90 lat \<Longrightarrow> in_range (-180) 180 lon \<Longrightarrow> check_latlon E i s = s"
  by (simp add: check_latlon_def)

lemma check_dates_unparsed:
  "parse_date E (dict_get (item s) (py ''arrival'') (JStr [])) = None \<or>
   parse_date E (dict_get (item s) (py ''departure'') (JStr [])) = None \<Longrightarrow>
   check_dates E fix i s = s"
  by (auto simp add: check_dates_def Let_def split: option.splits)

lemma check_dates_ordered:
  "parse_date E (dict_get (item s) (py ''arrival'') (JStr [])) = Some a \<Longrightarrow>
   parse_date E (dict_get (item s) (py ''departure'') (JStr [])) = Some b \<Longrightarrow>
   dt_gt a b = Inr False \<Longrightarrow> check_dates E fix i s = s"
  by (simp add: check_dates_def Let_def)

lemma check_link_valid:
  "(case dict_get (item s) (py ''link'') (JStr []) of
      JStr l \<Rightarrow> \<not> contains (py ''User to research'') l \<and> (contains (py ''http'') l \<or> length l \<le> 200)
    | _ \<Rightarrow> True) \<Longrightarrow> check_link fix i s = s"
  by (auto simp add: check_link_def check_placeholder_def check_suspicious_def Let_def split: json.splits)

lemma valid_record_dates:
  "valid_record E d \<Longrightarrow> item s = d \<Longrightarrow> check_dates E fix i s = s"
  apply (cases "parse_date E (dict_get d (py ''arrival'') (JStr []))")
   apply (simp add: check_dates_unparsed)
  apply (cases "parse_date E (dict_get d (py ''departure'') (JStr []))")
   apply (simp add: check_dates_unparsed)
  apply (rule check_dates_ordered)
    apply simp
   apply simp
  apply (simp add: valid_record_def dt_le_True_gt)
  done

lemma process_record_valid:
  assumes "valid_record E d"
  shows "process_record E False i d = \<lparr>row_ok = True, printed = [], item = d, raised = None\<rparr>"
proof -
  let ?s = "\<lparr>row_ok = True, printed = [], item = d, raised = None\<rparr> :: pydict row_state"
  have 1: "check_required i ?s = ?s"
    using assms by (simp add: check_required_valid valid_record_def)
  have 2: "check_latlon E i ?s = ?s"
    using assms by (auto simp add: valid_record_def split: option.splits intro: check_latlon_valid)
  have 3: "check_dates E False i ?s = ?s"
    using assms by (simp add: valid_record_dates)
  have 4: "check_link False i ?s = ?s"
    using assms by (simp add: check_link_valid valid_record_def)
  show ?thesis
    by (simp add: process_record_def start_def 1 2 3 4 unless_raised_def)
qed

lemma rows_valid:
  "\<forall>d\<in>set ds. valid_record E d \<Longrightarrow>
   rows E False i (map JObj ds) st = st\<lparr>cleaned := cleaned st @ map JObj ds\<rparr>"
proof (induction ds arbitrary: i st)
  case Nil
  then show ?case by simp
next
  case (Cons d ds)
  then show ?case
    by (simp add: process_row_def process_record_valid)
qed

lemma main_loaded:
  "read_text E p = Some t \<Longrightarrow> json_loads E t = Some (JList its) \<Longrightarrow>
   main E p fix inplace =
     (let st = rows E fix 1 its \<lparr>ok = True, cleaned = [], lines = [], failure = None, unvisited = []\<rparr>
      in case failure st of
           Some e \<Rightarrow> \<lparr>stdout = lines st, result = Uncaught e, written = None,
                       data_after = cleaned st @ unvisited st\<rparr>
         | None \<Rightarrow> finish E p fix inplace st)"
  by (simp add: main_def)


subsection \<open>The loop body, from its start state\<close>

lemma process_record_start:
  "process_record E fix i d =
     unless_raised (normalize_item fix)
       (unless_raised (check_link fix i)
         (unless_raised (check_dates E fix i) (check_latlon E i (check_required i (start d)))))"
  by (simp add: process_record_def)

lemma start_simps [simp]:
  "item (start d) = d" "raised (start d) = None" "printed (start d) = []" "row_ok (start d) = True"
  by (simp_all add: start_def)

lemma before_dates_item [simp]: "item (check_latlon E i (check_required i (start d))) = d"
  by (simp add: start_def)

lemma before_dates_raised:
  "raised (check_latlon E i (check_required i (start d))) = raised (check_latlon E i (start d))"
  by (simp add: check_latlon_raised)

lemma process_row_record:
  "printed (process_row E fix i (JObj d)) = printed (process_record E fix i d)"
  "row_ok (process_row E fix i (JObj d)) = row_ok (process_record E fix i d)"
  "raised (process_row E fix i (JObj d)) = raised (process_record E fix i d)"
  "item (process_row E fix i (JObj d)) = JObj (item (process_record E fix i d))"
  by (simp_all add: process_row_def Let_def)

subsection \<open>Inverted dates\<close>

lemma check_dates_inverted_nofix:
  "parse_date E (dict_get (item s) (py ''arrival'') (JStr [])) = Some a \<Longrightarrow>
   parse_date E (dict_get (item s) (py ''departure'') (JStr [])) = Some b \<Longrightarrow>
   dt_gt a b = Inr True \<Longrightarrow>
   can_print E (str_text E (dict_get (item s) (py ''arrival'') (JStr []))
                @ str_text E (dict_get (item s) (py ''departure'') (JStr []))) \<Longrightarrow>
   check_dates E False i s =
     s\<lparr>printed := printed s @ [ArrivalAfterDeparture i (dict_get (item s) (py ''arrival'') (JStr []))
                                    (dict_get (item s) (py ''departure'') (JStr []))],
       row_ok := False\<rparr>"
  by (simp add: check_dates_def Let_def)

lemma check_dates_inverted_fix:
  "parse_date E (dict_get (item s) (py ''arrival'') (JStr [])) = Some a \<Longrightarrow>
   parse_date E (dict_get (item s) (py ''departure'') (JStr [])) = Some b \<Longrightarrow>
   dt_gt a b = Inr True \<Longrightarrow>
   can_print E (str_text E (dict_get (item s) (py ''arrival'') (JStr []))
                @ str_text E (dict_get (item s) (py ''departure'') (JStr []))) \<Longrightarrow>
   check_dates E True i s =
     s\<lparr>printed := printed s @ [ArrivalAfterDeparture i (dict_get (item s) (py ''arrival'') (JStr []))
                                    (dict_get (item s) (py ''departure'') (JStr [])),
                                SwappingDates i],
       item := dict_set (dict_set (item s) (py ''arrival'')
                           (dict_get (item s) (py ''departure'') (JStr [])))
                 (py ''departure'') (dict_get (item s) (py ''arrival'') (JStr []))\<rparr>"
  by (simp add: check_dates_def Let_def)

lemma dict_get_set: "dict_get (dict_set d k v) k' dflt = (if k' = k then v else dict_get d k' dflt)"
  by (simp add: dict_get_def dict_set_def update_conv')

lemma arrival_neq_departure: "py ''arrival'' \<noteq> py ''departure''"
  by (simp add: py_def)

lemma check_dates_fix_row_ok [simp]: "row_ok (check_dates E True i s) = row_ok s"
  by (simp add: check_dates_def Let_def split: option.splits sum.splits bool.splits)

lemma check_dates_unencodable:
  "parse_date E (dict_get (item s) (py ''arrival'') (JStr [])) = Some a \<Longrightarrow>
   parse_date E (dict_get (item s) (py ''departure'') (JStr [])) = Some b \<Longrightarrow>
   dt_gt a b = Inr True \<Longrightarrow>
   \<not> can_print E (str_text E (dict_get (item s) (py ''arrival'') (JStr []))
                    @ str_text E (dict_get (item s) (py ''departure'') (JStr []))) \<Longrightarrow>
   check_dates E fix i s = s\<lparr>raised := Some UnicodeEncodeError\<rparr>"
  by (simp add: check_dates_def Let_def)

lemma process_record_fix_row_ok:
  "row_ok (process_record E True i d) = row_ok (check_latlon E i (check_required i (start d)))"
  by (simp add: process_record_start unless_raised_def split: option.splits)

lemma process_record_printed_dates:
  "set (printed (unless_raised (check_dates E fix i) (check_latlon E i (check_required i (start d)))))
     \<subseteq> set (printed (process_record E fix i d))"
  unfolding process_record_start by (rule after_dates_keeps)

lemma process_record_row_ok_dates:
  "row_ok (process_record E fix i d) \<Longrightarrow>
   row_ok (unless_raised (check_dates E fix i) (check_latlon E i (check_required i (start d))))"
  unfolding process_record_start by (rule after_dates_row_ok)

subsection \<open>What the loop body prints, by kind of line\<close>

lemma after_latlon_filter:
  assumes "\<And>a b. \<not> P (ArrivalAfterDeparture i a b)" "\<not> P (SwappingDates i)"
    "\<not> P (PlaceholderInLink i)" "\<not> P (ClearedPlaceholderLink i)" "\<not> P (SuspiciousLink i)"
  shows "filter P (printed (process_record E fix i d))
       = filter P (printed (check_latlon E i (check_required i (start d))))"
proof -
  let ?s2 = "check_latlon E i (check_required i (start d))"
  let ?s3 = "unless_raised (check_dates E fix i) ?s2"
  let ?s4 = "unless_raised (check_link fix i) ?s3"
  have "filter P (printed (unless_raised (normalize_item fix) ?s4)) = filter P (printed ?s4)"
    by (rule unless_raised_filter) simp
  also have "\<dots> = filter P (printed ?s3)"
    by (rule unless_raised_filter) (rule check_link_filter[OF assms(3-5)])
  also have "\<dots> = filter P (printed ?s2)"
    by (rule unless_raised_filter) (rule check_dates_filter[OF assms(1,2)])
  finally show ?thesis
    by (simp add: process_record_start)
qed

lemma missing_lines:
  "filter is_missing_line (printed (process_record E fix i d))
     = (if missing_fields d \<noteq> [] then [MissingFields i (missing_fields d)] else [])"
proof -
  have "filter is_missing_line (printed (process_record E fix i d))
      = filter is_missing_line (printed (check_latlon E i (check_required i (start d))))"
    by (rule after_latlon_filter) simp_all
  also have "\<dots> = filter is_missing_line (printed (check_required i (start d)))"
    by (rule check_latlon_filter) simp_all
  finally show ?thesis
    by (simp add: check_required_printed)
qed

lemma process_record_row_ok_required:
  "row_ok (process_record E fix i d) \<Longrightarrow> missing_fields d = []"
proof -
  assume "row_ok (process_record E fix i d)"
  then have "row_ok (unless_raised (check_dates E fix i) (check_latlon E i (check_required i (start d))))"
    by (rule process_record_row_ok_dates)
  then have "row_ok (check_latlon E i (check_required i (start d)))"
    by (rule unless_raised_row_ok[rotated]) (rule check_dates_row_ok)
  then have "row_ok (check_required i (start d))"
    by (rule check_latlon_row_ok)
  then show ?thesis
    by (simp add: check_required_row_ok)
qed

lemma process_record_row_ok_latlon:
  "row_ok (process_record E fix i d) \<Longrightarrow> row_ok (check_latlon E i (check_required i (start d)))"
proof -
  assume "row_ok (process_record E fix i d)"
  then have "row_ok (unless_raised (check_dates E fix i) (check_latlon E i (check_required i (start d))))"
    by (rule process_record_row_ok_dates)
  then show ?thesis
    by (rule unless_raised_row_ok[rotated]) (rule check_dates_row_ok)
qed

lemma missing_fields_set:
  "set (missing_fields d) = {f \<in> set REQUIRED_FIELDS. f \<notin> fst ` set d}"
  by (auto simp add: missing_fields_def map_of_eq_None_iff)

subsection \<open>The loop and the run\<close>

lemma rows_not_ok: "\<not> ok st \<Longrightarrow> \<not> ok (rows E fix i its st)"
  by (induction its arbitrary: i st) (auto simp add: Let_def split: option.splits)

lemma rows_lines_keep: "set (lines st) \<subseteq> set (lines (rows E fix i its st))"
proof (induction its arbitrary: i st)
  case Nil
  show ?case by simp
next
  case (Cons it its)
  show ?case
  proof (cases "raised (process_row E fix i it)")
    case None
    have "set (lines st) \<subseteq> set (lines (st\<lparr>lines := lines st @ printed (process_row E fix i it),
        cleaned := cleaned st @ [item (process_row E fix i it)],
        ok := (ok st \<and> row_ok (process_row E fix i it))\<rparr>))"
      by simp
    also have "\<dots> \<subseteq> set (lines (rows E fix (Suc i) its (st\<lparr>lines := lines st @ printed (process_row E fix i it),
        cleaned := cleaned st @ [item (process_row E fix i it)],
        ok := (ok st \<and> row_ok (process_row E fix i it))\<rparr>)))"
      by (rule Cons.IH)
    finally show ?thesis
      using None by (simp add: Let_def)
  next
    case (Some e)
    then show ?thesis by (simp add: Let_def)
  qed
qed

lemma rows_failed_row:
  "it \<in> set its \<Longrightarrow> (\<And>j. \<not> row_ok (process_row E fix j it)) \<Longrightarrow>
   failure (rows E fix i its st) \<noteq> None \<or> \<not> ok (rows E fix i its st)"
proof (induction its arbitrary: i st)
  case Nil
  then show ?case by simp
next
  case (Cons x its)
  show ?case
  proof (cases "raised (process_row E fix i x)")
    case (Some e)
    then show ?thesis by (simp add: Let_def)
  next
    case None
    show ?thesis
    proof (cases "x = it")
      case True
      with Cons.prems(2)[of i] None show ?thesis
        by (simp add: Let_def rows_not_ok)
    next
      case False
      with Cons.prems(1) have "it \<in> set its" by simp
      from Cons.IH[OF this Cons.prems(2)] None show ?thesis
        by (simp add: Let_def)
    qed
  qed
qed

lemma rows_lines_row:
  "failure (rows E fix i its st) = None \<Longrightarrow> k < length its \<Longrightarrow>
   set (printed (process_row E fix (i + k) (its ! k))) \<subseteq> set (lines (rows E fix i its st))"
proof (induction its arbitrary: i k st)
  case Nil
  then show ?case by simp
next
  case (Cons x its)
  show ?case
  proof (cases "raised (process_row E fix i x)")
    case (Some e)
    with Cons.prems(1) show ?thesis by (simp add: Let_def)
  next
    case None
    let ?st = "st\<lparr>lines := lines st @ printed (process_row E fix i x),
        cleaned := cleaned st @ [item (process_row E fix i x)],
        ok := (ok st \<and> row_ok (process_row E fix i x))\<rparr>"
    have unfold: "rows E fix i (x # its) st = rows E fix (Suc i) its ?st"
      using None by (simp add: Let_def)
    show ?thesis
    proof (cases k)
      case 0
      have "set (printed (process_row E fix i x)) \<subseteq> set (lines ?st)" by simp
      also have "\<dots> \<subseteq> set (lines (rows E fix (Suc i) its ?st))" by (rule rows_lines_keep)
      finally show ?thesis using 0 unfold by simp
    next
      case (Suc k')
      from Cons.prems unfold Suc have "failure (rows E fix (Suc i) its ?st) = None" "k' < length its"
        by simp_all
      from Cons.IH[OF this] show ?thesis using Suc unfold by simp
    qed
  qed
qed

lemma main_exit_failed_row:
  assumes "read_text E p = Some t" "json_loads E t = Some (JList its)"
    "it \<in> set its" "\<And>j. \<not> row_ok (process_row E fix j it)"
  shows "exit_status (main E p fix inplace) = 1"
proof -
  let ?st = "rows E fix 1 its \<lparr>ok = True, cleaned = [], lines = [], failure = None, unvisited = []\<rparr>"
  from rows_failed_row[OF assms(3,4)] have "failure ?st \<noteq> None \<or> \<not> ok ?st" .
  then show ?thesis
    by (auto simp add: main_loaded[OF assms(1,2)] Let_def exit_status_def finish_def split: option.splits)
qed

lemma main_stdout_row:
  assumes "read_text E p = Some t" "json_loads E t = Some (JList its)"
    "result (main E p fix inplace) = Returned n" "k < length its"
  shows "set (printed (process_row E fix (Suc k) (its ! k))) \<subseteq> set (stdout (main E p fix inplace))"
proof -
  let ?st = "rows E fix 1 its \<lparr>ok = True, cleaned = [], lines = [], failure = None, unvisited = []\<rparr>"
  have f: "failure ?st = None"
    using assms(3) by (auto simp add: main_loaded[OF assms(1,2)] Let_def split: option.splits)
  from rows_lines_row[OF f assms(4)] have "set (printed (process_row E fix (Suc k) (its ! k))) \<subseteq> set (lines ?st)"
    by simp
  then show ?thesis
    using f by (auto simp add: main_loaded[OF assms(1,2)] Let_def finish_def)
qed

subsection \<open>Coordinates that coerce\<close>

lemma check_latlon_numeric:
  assumes "to_float E (dict_get (item s) (py ''lat'') (JInt 0)) = Some lat"
    and "to_float E (dict_get (item s) (py ''lon'') (JInt 0)) = Some lon"
  shows "printed (check_latlon E i s) =
           printed s @ (if \<not> in_range (-90) 90 lat then [LatOutOfRange i] else [])
                     @ (if \<not> in_range (-180) 180 lon then [LonOutOfRange i] else [])"
    and "row_ok (check_latlon E i s) = (row_ok s \<and> in_range (-90) 90 lat \<and> in_range (-180) 180 lon)"
  using assms by (simp_all add: check_latlon_def Let_def)

lemma coord_lines:
  "filter is_coord_line (printed (process_record E fix i d))
     = filter is_coord_line (printed (check_latlon E i (start d)))"
proof -
  have "filter is_coord_line (printed (process_record E fix i d))
      = filter is_coord_line (printed (check_latlon E i (check_required i (start d))))"
    by (rule after_latlon_filter) simp_all
  also have "\<dots> = filter is_coord_line (printed (check_latlon E i (start d)))"
    by (simp add: check_latlon_def not_numeric_def check_required_printed Let_def split: option.splits)
  finally show ?thesis .
qed

subsection \<open>Runs without fix\<close>

lemma process_record_nofix_item [simp]: "item (process_record E False i d) = d"
  by (simp add: process_record_start unless_raised_def split: option.splits)

lemma process_row_nofix_item [simp]: "item (process_row E False i it) = it"
  by (cases it) (simp_all add: process_row_def no_get_def Let_def)

lemma rows_nofix_data:
  "failure st = None \<Longrightarrow>
   cleaned (rows E False i its st)
     @ (if failure (rows E False i its st) = None then [] else unvisited (rows E False i its st))
   = cleaned st @ its"
proof (induction its arbitrary: i st)
  case Nil
  then show ?case by simp
next
  case (Cons x its)
  show ?case
  proof (cases "raised (process_row E False i x)")
    case (Some e)
    then show ?thesis by (simp add: Let_def)
  next
    case None
    let ?st = "st\<lparr>lines := lines st @ printed (process_row E False i x),
        cleaned := cleaned st @ [item (process_row E False i x)],
        ok := (ok st \<and> row_ok (process_row E False i x))\<rparr>"
    have u: "rows E False i (x # its) st = rows E False (Suc i) its ?st"
      using None by (simp add: Let_def)
    have "failure ?st = None" using Cons.prems by simp
    from Cons.IH[OF this, of "Suc i"] show ?thesis
      unfolding u by simp
  qed
qed

lemma main_nofix_written: "written (main E p False inplace) = None"
  by (simp add: main_def finish_def Let_def split: option.splits json.splits)

subsection \<open>Absent coordinates\<close>

lemma to_float_zero [simp]: "to_float E (JInt 0) = Some (Fin 0)"
  by (simp add: to_float_def float_overflow_def)

lemma in_range_zero [simp]: "in_range (-90) 90 (Fin 0)" "in_range (-180) 180 (Fin 0)"
  by (simp_all add: in_range_def)

lemma dict_get_absent: "map_of d k = None \<Longrightarrow> dict_get d k dflt = dflt"
  by (simp add: dict_get_def)

lemma check_latlon_no_lat:
  assumes "map_of (item s) (py ''lat'') = None"
  shows "check_latlon E i s =
           (case to_float E (dict_get (item s) (py ''lon'') (JInt 0)) of
              None \<Rightarrow>
                if can_print E (shown E (map_of (item s) (py ''lon'')))
                then s\<lparr>printed := printed s @ [LatLonNotNumeric i None (map_of (item s) (py ''lon''))],
                        row_ok := False\<rparr>
                else s\<lparr>raised := Some UnicodeEncodeError\<rparr>
            | Some lon \<Rightarrow>
                if in_range (-180) 180 lon then s
                else s\<lparr>printed := printed s @ [LonOutOfRange i], row_ok := False\<rparr>)"
  using assms
  by (simp add: check_latlon_def not_numeric_def dict_get_absent Let_def split: option.splits)

lemma check_latlon_no_lon:
  assumes "map_of (item s) (py ''lon'') = None"
  shows "check_latlon E i s =
           (case to_float E (dict_get (item s) (py ''lat'') (JInt 0)) of
              None \<Rightarrow>
                if can_print E (shown E (map_of (item s) (py ''lat'')))
                then s\<lparr>printed := printed s @ [LatLonNotNumeric i (map_of (item s) (py ''lat'')) None],
                        row_ok := False\<rparr>
                else s\<lparr>raised := Some UnicodeEncodeError\<rparr>
            | Some lat \<Rightarrow>
                if in_range (-90) 90 lat then s
                else s\<lparr>printed := printed s @ [LatOutOfRange i], row_ok := False\<rparr>)"
  using assms
  by (simp add: check_latlon_def not_numeric_def dict_get_absent Let_def split: option.splits)

lemma absent_is_missing:
  "map_of d k = None \<Longrightarrow> k \<in> set REQUIRED_FIELDS \<Longrightarrow> k \<in> set (missing_fields d)"
  by (simp add: missing_fields_def)

lemma lat_lon_required: "py ''lat'' \<in> set REQUIRED_FIELDS" "py ''lon'' \<in> set REQUIRED_FIELDS"
  by (simp_all add: REQUIRED_FIELDS_def)

lemma row_missing_line:
  "missing_fields d \<noteq> [] \<Longrightarrow>
   MissingFields i (missing_fields d) \<in> set (printed (process_row E fix i (JObj d)))"
proof -
  assume "missing_fields d \<noteq> []"
  then have "MissingFields i (missing_fields d)
      \<in> set (filter is_missing_line (printed (process_row E fix i (JObj d))))"
    by (simp add: process_row_record missing_lines)
  then show ?thesis by simp
qed

subsection \<open>Text normalisation is idempotent\<close>










lemma normalized_keys [simp]: "map fst (normalized d) = map fst d"
  by (simp add: normalized_def)

subsection \<open>The normalisation loop as one pass\<close>

lemma update_past_prefix:
  "k \<notin> fst ` set ps \<Longrightarrow> AList.update k v (ps @ qs) = ps @ AList.update k v qs"
  by (induction ps) auto

lemma normalize_entry_step:
  assumes "fst kv \<notin> fst ` set ps"
  shows "normalize_entry kv (ps @ kv # qs) = ps @ (fst kv, normalize_value (snd kv)) # qs"
proof (cases "snd kv")
  case (JStr t)
  then show ?thesis
    using assms
    by (cases kv) (simp add: normalize_entry_def normalize_value_def dict_set_def update_past_prefix)
qed (cases kv; simp add: normalize_entry_def normalize_value_def)+

lemma fold_normalize_entry:
  "distinct (map fst (ys @ xs)) \<Longrightarrow>
   fold normalize_entry xs (normalized ys @ xs) = normalized (ys @ xs)"
proof (induction xs arbitrary: ys)
  case Nil
  then show ?case by simp
next
  case (Cons kv xs)
  from Cons.prems have notin: "fst kv \<notin> fst ` set (normalized ys)"
    by (auto simp add: normalized_def image_iff)
  have "fold normalize_entry (kv # xs) (normalized ys @ kv # xs)
      = fold normalize_entry xs (normalized ys @ (fst kv, normalize_value (snd kv)) # xs)"
    by (simp add: normalize_entry_step[OF notin])
  also have "\<dots> = fold normalize_entry xs (normalized (ys @ [kv]) @ xs)"
    by (simp add: normalized_def)
  also have "\<dots> = normalized ((ys @ [kv]) @ xs)"
    using Cons.prems by (intro Cons.IH) simp
  finally show ?case by simp
qed

lemma normalize_item_fix:
  "distinct (map fst (item s)) \<Longrightarrow> normalize_item True s = s\<lparr>item := normalized (item s)\<rparr>"
  using fold_normalize_entry[of "[]" "item s"]
  by (simp add: normalize_item_def normalized_def)

subsection \<open>Fix mode on valid records\<close>







lemma can_write_Nil [simp]: "can_write E []"
  by (simp add: can_write_def)



subsection \<open>The record a swapped row ends with\<close>

lemma map_of_dict_set: "map_of (dict_set d k v) k' = (if k' = k then Some v else map_of d k')"
  by (simp add: dict_set_def update_conv')

lemma dict_set_distinct [simp]: "distinct (map fst (dict_set d k v)) = distinct (map fst d)"
  by (simp add: dict_set_def update_keys)

lemma map_of_normalized: "map_of (normalized d) k = map_option normalize_value (map_of d k)"
  by (induction d) (auto simp add: normalized_def)

lemma check_link_item_other:
  "k \<noteq> py ''link'' \<Longrightarrow> map_of (item (check_link fix i s)) k = map_of (item s) k"
  by (simp add: check_link_def check_placeholder_def check_suspicious_def Let_def map_of_dict_set
      split: json.splits)

lemma check_link_distinct [simp]:
  "distinct (map fst (item (check_link fix i s))) = distinct (map fst (item s))"
  by (simp add: check_link_def check_placeholder_def check_suspicious_def Let_def split: json.splits)

lemma process_record_swapped:
  assumes sw: "unless_raised (check_dates E True i) (check_latlon E i (check_required i (start d)))
            = (check_latlon E i (check_required i (start d)))
                \<lparr>printed := pr, item := dict_set (dict_set d (py ''arrival'') x) (py ''departure'') y\<rparr>"
    and r: "raised (check_latlon E i (check_required i (start d))) = None"
    and k: "distinct (map fst d)"
  shows "map_of (item (process_record E True i d)) (py ''arrival'') = Some (normalize_value x)"
    and "map_of (item (process_record E True i d)) (py ''departure'') = Some (normalize_value y)"
proof -
  let ?s2 = "check_latlon E i (check_required i (start d))"
  let ?s3 = "?s2\<lparr>printed := pr, item := dict_set (dict_set d (py ''arrival'') x) (py ''departure'') y\<rparr>"
  let ?s4 = "check_link True i ?s3"
  have r3: "raised ?s3 = None"
    using r by simp
  have r4: "raised ?s4 = None"
    using r3 by simp
  have "process_record E True i d = unless_raised (normalize_item True) (unless_raised (check_link True i) ?s3)"
    by (simp only: process_record_start sw)
  also have "\<dots> = normalize_item True ?s4"
    by (simp only: unless_raised_None[OF r3] unless_raised_None[OF r4])
  also have "\<dots> = ?s4\<lparr>item := normalized (item ?s4)\<rparr>"
    by (rule normalize_item_fix) (simp add: k)
  finally have p: "item (process_record E True i d) = normalized (item ?s4)"
    by simp
  have a: "map_of (item ?s4) (py ''arrival'') = Some x"
    by (simp add: check_link_item_other map_of_dict_set py_def)
  have b: "map_of (item ?s4) (py ''departure'') = Some y"
    by (simp add: check_link_item_other map_of_dict_set py_def)
  show "map_of (item (process_record E True i d)) (py ''arrival'') = Some (normalize_value x)"
    by (simp only: p map_of_normalized a option.map)
  show "map_of (item (process_record E True i d)) (py ''departure'') = Some (normalize_value y)"
    by (simp only: p map_of_normalized b option.map)
qed

subsection \<open>Flagged links, and the write\<close>

lemma check_link_flagged:
  assumes "dict_get (item s) (py ''link'') (JStr []) = JStr l"
    and "contains (py ''User to research'') l \<or> (\<not> contains (py ''http'') l \<and> 200 < length l)"
  shows "\<not> row_ok (check_link False i s)"
    and "contains (py ''User to research'') l \<Longrightarrow> PlaceholderInLink i \<in> set (printed (check_link fix i s))"
    and "\<not> contains (py ''http'') l \<and> 200 < length l \<Longrightarrow> SuspiciousLink i \<in> set (printed (check_link fix i s))"
    and "dict_get (item (check_link True i s)) (py ''link'') (JStr []) = JStr []"
    and "row_ok (check_link True i s) = row_ok s"
  using assms
  by (auto simp add: check_link_def check_placeholder_def check_suspicious_def dict_get_set Let_def)

lemma unless_raised_raised:
  "(\<And>t. raised (f t) = raised t) \<Longrightarrow> raised (unless_raised f s) = raised s"
  by (simp add: unless_raised_def split: option.splits)

lemma process_record_raised:
  "raised (process_record E fix i d)
     = raised (unless_raised (check_dates E fix i) (check_latlon E i (check_required i (start d))))"
  by (simp add: process_record_start unless_raised_raised)

lemma link_row_when_not_raised:
  assumes "dict_get d (py ''link'') (JStr []) = JStr l"
    and "contains (py ''User to research'') l \<or> (\<not> contains (py ''http'') l \<and> 200 < length l)"
    and "raised (process_record E False i d) = None"
  shows "\<not> row_ok (process_record E False i d)"
proof -
  let ?s3 = "unless_raised (check_dates E False i) (check_latlon E i (check_required i (start d)))"
  have r: "raised ?s3 = None"
    using assms(3) by (simp add: process_record_raised)
  have "unless_raised (check_link False i) ?s3 = check_link False i ?s3"
    by (rule unless_raised_None[OF r])
  then have "process_record E False i d = check_link False i ?s3"
    by (simp add: process_record_start unless_raised_def[of "normalize_item False"] split: option.splits)
  moreover have "\<not> row_ok (check_link False i ?s3)"
    by (rule check_link_flagged(1)[OF _ assms(2)])
      (simp add: assms(1) unless_raised_def split: option.splits)
  ultimately show ?thesis by simp
qed

lemma stem_suffix: "stem p @ suffix p = path_name p"
  by (simp add: stem_def suffix_def Let_def)

lemma rows_cleaned_length:
  "failure (rows E fix i its st) = None \<Longrightarrow>
   length (cleaned (rows E fix i its st)) = length (cleaned st) + length its"
proof (induction its arbitrary: i st)
  case Nil
  then show ?case by simp
next
  case (Cons x its)
  show ?case
  proof (cases "raised (process_row E fix i x)")
    case (Some e)
    with Cons.prems show ?thesis by (simp add: Let_def)
  next
    case None
    let ?st = "st\<lparr>lines := lines st @ printed (process_row E fix i x),
        cleaned := cleaned st @ [item (process_row E fix i x)],
        ok := (ok st \<and> row_ok (process_row E fix i x))\<rparr>"
    have u: "rows E fix i (x # its) st = rows E fix (Suc i) its ?st"
      using None by (simp add: Let_def)
    from Cons.prems have "failure (rows E fix (Suc i) its ?st) = None"
      unfolding u .
    from Cons.IH[OF this] show ?thesis
      unfolding u by simp
  qed
qed

lemma main_fix_writes:
  assumes "read_text E p = Some t" "json_loads E t = Some (JList its)"
    and "result (main E p True inplace) = Returned n"
  shows "written (main E p True inplace)
       = (if its = [] then None
          else Some \<lparr>out_path = (if inplace then p
                                  else with_name p (stem p @ py ''.fixed'' @ suffix p)),
                     out_text = Dumps (data_after (main E p True inplace)) 2 False\<rparr>)"
proof -
  let ?st = "rows E True 1 its \<lparr>ok = True, cleaned = [], lines = [], failure = None, unvisited = []\<rparr>"
  have f: "failure ?st = None"
    using assms(3) by (auto simp add: main_loaded[OF assms(1,2)] Let_def split: option.splits)
  from rows_cleaned_length[OF f] have "length (cleaned ?st) = length its" by simp
  then have "cleaned ?st = [] \<longleftrightarrow> its = []" by auto
  then show ?thesis
    using f assms(3)
    by (auto simp add: main_loaded[OF assms(1,2)] Let_def finish_def split: if_splits)
qed

lemma main_empty_dataset:
  "read_text E p = Some t \<Longrightarrow> json_loads E t = Some (JList []) \<Longrightarrow>
   written (main E p fix inplace) = None \<and> result (main E p fix inplace) = Returned 0"
  by (simp add: main_def finish_def)

subsection \<open>Evaluating the model on the samples\<close>

lemmas model_defs = py_def REQUIRED_FIELDS_def parse_date_def remove_emojis_def missing_fields_def
  check_required_def not_numeric_def check_latlon_def check_dates_def check_placeholder_def
  check_suspicious_def check_link_def normalize_text_def normalize_entry_def normalize_item_def
  unless_raised_def process_record_def no_get_def process_row_def finish_def main_def
  exit_status_def dict_get_def dict_set_def to_float_def in_range_def strip_def py_isspace_def
  suffix_def stem_def with_name_def float_overflow_def Let_def
  can_print_def can_write_def str_text_def shown_def

lemmas sample_defs = sample_env_def sample_path_def sample_dates_def sample_floats_def
  good_record_def bad_record_def far_record_def undated_record_def other_path_def
  lon_only_record_def lon_text_record_def with_link_def emoji_link_def crash_record_def
  surrogate_dates_record_def lon_surrogate_record_def surrogate_name_record_def
  emoji_dates_record_def surrogate_lon_record_def

lemma good_record_valid: "valid_record (sample_env v) good_record"
  by (simp add: valid_record_def model_defs sample_defs)



section \<open>The claims\<close>

text \<open>
  C1. A record that has every required field, coordinates that coerce to numbers within
  \<open>[-90, 90]\<close> and \<open>[-180, 180]\<close>, \<^verbatim>\<open>arrival <= departure\<close> whenever both dates parse,
  and a link without the placeholder that holds \<^verbatim>\<open>http\<close> or has at most 200 code points
  passes non-fix validation: the row flag stays set, nothing is printed and nothing is
  raised. A run without \<^verbatim>\<open>--fix\<close> over a dataset of such records returns 0, and the
  process exits with status 0.
\<close>

theorem valid_dataset_passes:
  assumes "valid_record E d"
    and "\<forall>r\<in>set ds. valid_record E r"
    and "read_text E p = Some t"
    and "json_loads E t = Some (JList (map JObj ds))"
  shows "row_ok (process_row E False i (JObj d))
       \<and> raised (process_row E False i (JObj d)) = None
       \<and> printed (process_row E False i (JObj d)) = []
       \<and> result (main E p False inplace) = Returned 0
       \<and> exit_status (main E p False inplace) = 0"
proof -
  have "process_row E False i (JObj d) = \<lparr>row_ok = True, printed = [], item = JObj d, raised = None\<rparr>"
    using assms(1) by (simp add: process_row_def process_record_valid)
  moreover have "result (main E p False inplace) = Returned 0"
    using assms(2-4) by (simp add: main_loaded rows_valid finish_def Let_def)
  ultimately show ?thesis
    by (simp add: exit_status_def)
qed

theorem valid_dataset_passes_witness:
  "valid_record (sample_env (Some (JList [JObj good_record]))) good_record
   \<and> read_text (sample_env (Some (JList [JObj good_record]))) sample_path
        = Some (py ''(the text of data.json)'')
   \<and> json_loads (sample_env (Some (JList [JObj good_record]))) (py ''(the text of data.json)'')
        = Some (JList (map JObj [good_record]))
   \<and> row_ok (process_row (sample_env (Some (JList [JObj good_record]))) False 1 (JObj good_record))
   \<and> result (main (sample_env (Some (JList [JObj good_record]))) sample_path False False)
        = Returned 0
   \<and> exit_status (main (sample_env (Some (JList [JObj good_record]))) sample_path False False) = 0"
proof -
  let ?E = "sample_env (Some (JList [JObj good_record]))"
  have v: "valid_record ?E good_record"
    by (rule good_record_valid)
  have vs: "\<forall>r\<in>set [good_record]. valid_record ?E r"
    using v by simp
  have r: "read_text ?E sample_path = Some (py ''(the text of data.json)'')"
    by (simp add: sample_env_def)
  have l: "json_loads ?E (py ''(the text of data.json)'') = Some (JList (map JObj [good_record]))"
    by (simp add: sample_env_def)
  show ?thesis
    using valid_dataset_passes [OF v vs r l, of 1 False] v r l by simp
qed

text \<open>
  C2, as the code has it. Let both dates of a record parse and \<^verbatim>\<open>arrival > departure\<close>
  hold. The ordering line shows the two raw strings. When the output stream can encode
  them: without \<^verbatim>\<open>--fix\<close> the date check prints the ordering line and clears the row
  flag; with \<^verbatim>\<open>--fix\<close> it prints the ordering line and the swap line, stores each raw
  string under the other key, so that the record's arrival now parses to the earlier
  date, and leaves the row flag as it found it. A row that reaches the date check (the
  coordinate check has raised nothing) has these lines among its output, ends failed
  without \<^verbatim>\<open>--fix\<close>, and with \<^verbatim>\<open>--fix\<close> ends with each raw string, normalised like every
  other string value of the record, under the other key. When the stream cannot encode
  them, \<^verbatim>\<open>print\<close> raises \<^verbatim>\<open>UnicodeEncodeError\<close> in either mode: nothing is printed, the
  flag is not cleared and nothing is swapped. With \<^verbatim>\<open>--fix\<close> the row's final flag is the
  one the completeness and coordinate checks left. When either string does not parse,
  the check changes nothing: no line, no failure.

  The claim as stated (an ordering line and a failed row without \<^verbatim>\<open>--fix\<close>, a swap with
  it) fails on a record whose arrival has a lone surrogate between date and time, and on
  a record with inverted dates whose longitude is a lone surrogate, where the \<^verbatim>\<open>print\<close>
  of line 75 raises before the date check is reached.
\<close>

theorem inverted_dates:
  assumes pa: "parse_date E (dict_get d (py ''arrival'') (JStr [])) = Some a"
    and pb: "parse_date E (dict_get d (py ''departure'') (JStr [])) = Some b"
    and gt: "dt_gt a b = Inr True"
    and it: "item s = d"
  shows "(can_print E (str_text E (dict_get d (py ''arrival'') (JStr []))
                       @ str_text E (dict_get d (py ''departure'') (JStr []))) \<longrightarrow>
            check_dates E False i s =
              s\<lparr>printed := printed s @ [ArrivalAfterDeparture i (dict_get d (py ''arrival'') (JStr []))
                                             (dict_get d (py ''departure'') (JStr []))],
                row_ok := False\<rparr>
          \<and> check_dates E True i s =
              s\<lparr>printed := printed s @ [ArrivalAfterDeparture i (dict_get d (py ''arrival'') (JStr []))
                                             (dict_get d (py ''departure'') (JStr [])),
                                         SwappingDates i],
                item := dict_set (dict_set d (py ''arrival'') (dict_get d (py ''departure'') (JStr [])))
                          (py ''departure'') (dict_get d (py ''arrival'') (JStr []))\<rparr>
          \<and> dict_get (item (check_dates E True i s)) (py ''arrival'') (JStr [])
               = dict_get d (py ''departure'') (JStr [])
          \<and> dict_get (item (check_dates E True i s)) (py ''departure'') (JStr [])
               = dict_get d (py ''arrival'') (JStr [])
          \<and> parse_date E (dict_get (item (check_dates E True i s)) (py ''arrival'') (JStr [])) = Some b
          \<and> parse_date E (dict_get (item (check_dates E True i s)) (py ''departure'') (JStr [])) = Some a
          \<and> row_ok (check_dates E True i s) = row_ok s
          \<and> raised (check_dates E True i s) = raised s
          \<and> (raised (check_latlon E i (start d)) = None \<longrightarrow>
                ArrivalAfterDeparture i (dict_get d (py ''arrival'') (JStr []))
                  (dict_get d (py ''departure'') (JStr [])) \<in> set (printed (process_record E False i d))
              \<and> \<not> row_ok (process_record E False i d)
              \<and> ArrivalAfterDeparture i (dict_get d (py ''arrival'') (JStr []))
                  (dict_get d (py ''departure'') (JStr [])) \<in> set (printed (process_record E True i d))
              \<and> SwappingDates i \<in> set (printed (process_record E True i d))
              \<and> (distinct (map fst d) \<longrightarrow>
                    map_of (item (process_record E True i d)) (py ''arrival'')
                      = Some (normalize_value (dict_get d (py ''departure'') (JStr [])))
                  \<and> map_of (item (process_record E True i d)) (py ''departure'')
                      = Some (normalize_value (dict_get d (py ''arrival'') (JStr []))))))
       \<and> (\<not> can_print E (str_text E (dict_get d (py ''arrival'') (JStr []))
                          @ str_text E (dict_get d (py ''departure'') (JStr []))) \<longrightarrow>
            (\<forall>fix'. check_dates E fix' i s = s\<lparr>raised := Some UnicodeEncodeError\<rparr>))
       \<and> dt_le b a = Inr True
       \<and> row_ok (process_record E True i d) = row_ok (check_latlon E i (check_required i (start d)))
       \<and> (\<forall>t fix'. parse_date E (dict_get (item t) (py ''arrival'') (JStr [])) = None
                    \<or> parse_date E (dict_get (item t) (py ''departure'') (JStr [])) = None
                  \<longrightarrow> check_dates E fix' i t = t)"
proof -
  let ?araw = "dict_get d (py ''arrival'') (JStr [])"
  let ?draw = "dict_get d (py ''departure'') (JStr [])"
  let ?s2 = "check_latlon E i (check_required i (start d))"
  have printable: "check_dates E False i s =
              s\<lparr>printed := printed s @ [ArrivalAfterDeparture i ?araw ?draw], row_ok := False\<rparr>
          \<and> check_dates E True i s =
              s\<lparr>printed := printed s @ [ArrivalAfterDeparture i ?araw ?draw, SwappingDates i],
                item := dict_set (dict_set d (py ''arrival'') ?draw) (py ''departure'') ?araw\<rparr>
          \<and> dict_get (item (check_dates E True i s)) (py ''arrival'') (JStr []) = ?draw
          \<and> dict_get (item (check_dates E True i s)) (py ''departure'') (JStr []) = ?araw
          \<and> parse_date E (dict_get (item (check_dates E True i s)) (py ''arrival'') (JStr [])) = Some b
          \<and> parse_date E (dict_get (item (check_dates E True i s)) (py ''departure'') (JStr [])) = Some a
          \<and> row_ok (check_dates E True i s) = row_ok s
          \<and> raised (check_dates E True i s) = raised s
          \<and> (raised (check_latlon E i (start d)) = None \<longrightarrow>
                ArrivalAfterDeparture i ?araw ?draw \<in> set (printed (process_record E False i d))
              \<and> \<not> row_ok (process_record E False i d)
              \<and> ArrivalAfterDeparture i ?araw ?draw \<in> set (printed (process_record E True i d))
              \<and> SwappingDates i \<in> set (printed (process_record E True i d))
              \<and> (distinct (map fst d) \<longrightarrow>
                    map_of (item (process_record E True i d)) (py ''arrival'') = Some (normalize_value ?draw)
                  \<and> map_of (item (process_record E True i d)) (py ''departure'') = Some (normalize_value ?araw)))"
    if e: "can_print E (str_text E ?araw @ str_text E ?draw)"
  proof -
    have nofixd: "check_dates E False i s = s\<lparr>printed := printed s @ [ArrivalAfterDeparture i ?araw ?draw], row_ok := False\<rparr>"
      using check_dates_inverted_nofix[of E s a b i] pa pb gt it e by simp
    have fixd: "check_dates E True i s =
             s\<lparr>printed := printed s @ [ArrivalAfterDeparture i ?araw ?draw, SwappingDates i],
               item := dict_set (dict_set d (py ''arrival'') ?draw) (py ''departure'') ?araw\<rparr>"
      using check_dates_inverted_fix[of E s a b i] pa pb gt it e by simp
    have c5: "dict_get (item (check_dates E True i s)) (py ''arrival'') (JStr []) = ?draw"
      by (simp add: fixd dict_get_set arrival_neq_departure)
    have c6: "dict_get (item (check_dates E True i s)) (py ''departure'') (JStr []) = ?araw"
      by (simp add: fixd dict_get_set)
    have c7: "parse_date E (dict_get (item (check_dates E True i s)) (py ''arrival'') (JStr [])) = Some b"
      by (simp add: c5 pb)
    have c8: "parse_date E (dict_get (item (check_dates E True i s)) (py ''departure'') (JStr [])) = Some a"
      by (simp add: c6 pa)
    have c9: "row_ok (check_dates E True i s) = row_ok s"
      by simp
    have c10: "raised (check_dates E True i s) = raised s"
      by (simp add: fixd)
    have row: "ArrivalAfterDeparture i ?araw ?draw \<in> set (printed (process_record E False i d))
              \<and> \<not> row_ok (process_record E False i d)
              \<and> ArrivalAfterDeparture i ?araw ?draw \<in> set (printed (process_record E True i d))
              \<and> SwappingDates i \<in> set (printed (process_record E True i d))
              \<and> (distinct (map fst d) \<longrightarrow>
                    map_of (item (process_record E True i d)) (py ''arrival'') = Some (normalize_value ?draw)
                  \<and> map_of (item (process_record E True i d)) (py ''departure'') = Some (normalize_value ?araw))"
      if r: "raised (check_latlon E i (start d)) = None"
    proof -
      have r2: "raised ?s2 = None"
        using r by (simp add: before_dates_raised)
      have nofix2: "unless_raised (check_dates E False i) ?s2
            = ?s2\<lparr>printed := printed ?s2 @ [ArrivalAfterDeparture i ?araw ?draw], row_ok := False\<rparr>"
        using check_dates_inverted_nofix[of E ?s2 a b i] pa pb gt e by (simp add: unless_raised_None[OF r2])
      have fix2: "unless_raised (check_dates E True i) ?s2 =
             ?s2\<lparr>printed := printed ?s2 @ [ArrivalAfterDeparture i ?araw ?draw, SwappingDates i],
               item := dict_set (dict_set d (py ''arrival'') ?draw) (py ''departure'') ?araw\<rparr>"
        using check_dates_inverted_fix[of E ?s2 a b i] pa pb gt e by (simp add: unless_raised_None[OF r2])
      have c2: "ArrivalAfterDeparture i ?araw ?draw \<in> set (printed (process_record E False i d))"
        using process_record_printed_dates[of E False i d] by (auto simp add: nofix2)
      have c3: "\<not> row_ok (process_record E False i d)"
        using process_record_row_ok_dates[of E False i d] by (auto simp add: nofix2)
      have c11: "ArrivalAfterDeparture i ?araw ?draw \<in> set (printed (process_record E True i d))"
        using process_record_printed_dates[of E True i d] by (auto simp add: fix2)
      have c12: "SwappingDates i \<in> set (printed (process_record E True i d))"
        using process_record_printed_dates[of E True i d] by (auto simp add: fix2)
      have c13: "map_of (item (process_record E True i d)) (py ''arrival'') = Some (normalize_value ?draw)
               \<and> map_of (item (process_record E True i d)) (py ''departure'') = Some (normalize_value ?araw)"
        if "distinct (map fst d)"
        using process_record_swapped[OF fix2 r2 that] by simp
      show ?thesis
        using c2 c3 c11 c12 c13 by blast
    qed
    show ?thesis
      using nofixd fixd c5 c6 c7 c8 c9 c10 row by blast
  qed
  have unprintable: "\<forall>fix'. check_dates E fix' i s = s\<lparr>raised := Some UnicodeEncodeError\<rparr>"
    if n: "\<not> can_print E (str_text E ?araw @ str_text E ?draw)"
    using check_dates_unencodable[of E s a b] pa pb gt it n by simp
  have unparsed: "\<forall>t fix'. parse_date E (dict_get (item t) (py ''arrival'') (JStr [])) = None
                    \<or> parse_date E (dict_get (item t) (py ''departure'') (JStr [])) = None
                  \<longrightarrow> check_dates E fix' i t = t"
    by (simp add: check_dates_unparsed)
  show ?thesis
    apply (intro conjI)
        apply (rule impI)
        apply (erule printable)
       apply (rule impI)
       apply (erule unprintable)
      apply (rule dt_gt_True_le[OF gt])
     apply (rule process_record_fix_row_ok)
    apply (rule unparsed)
    done
qed

theorem inverted_dates_counterexample:
  "parse_date (sample_env None) (dict_get surrogate_dates_record (py ''arrival'') (JStr []))
     = Some (Naive 63918842400000000)
   \<and> parse_date (sample_env None) (dict_get surrogate_dates_record (py ''departure'') (JStr []))
     = Some (Naive 63918460800000000)
   \<and> dt_gt (Naive 63918842400000000) (Naive 63918460800000000) = Inr True
   \<and> process_row (sample_env None) False 1 (JObj surrogate_dates_record)
       = \<lparr>row_ok = True, printed = [], item = JObj surrogate_dates_record,
          raised = Some UnicodeEncodeError\<rparr>
   \<and> process_row (sample_env None) True 1 (JObj surrogate_dates_record)
       = \<lparr>row_ok = True, printed = [], item = JObj surrogate_dates_record,
          raised = Some UnicodeEncodeError\<rparr>
   \<and> main (sample_env (Some (JList [JObj surrogate_dates_record]))) sample_path False False
       = \<lparr>stdout = [], result = Uncaught UnicodeEncodeError, written = None,
          data_after = [JObj surrogate_dates_record]\<rparr>
   \<and> parse_date (sample_env None) (dict_get surrogate_lon_record (py ''arrival'') (JStr []))
     = Some (Naive 63918806400000000)
   \<and> parse_date (sample_env None) (dict_get surrogate_lon_record (py ''departure'') (JStr []))
     = Some (Naive 63918460800000000)
   \<and> dt_gt (Naive 63918806400000000) (Naive 63918460800000000) = Inr True
   \<and> process_row (sample_env None) False 1 (JObj surrogate_lon_record)
       = \<lparr>row_ok = True, printed = [], item = JObj surrogate_lon_record,
          raised = Some UnicodeEncodeError\<rparr>"
  by (simp add: model_defs sample_defs start_def)

theorem inverted_dates_witness:
  "parse_date (sample_env None) (dict_get bad_record (py ''arrival'') (JStr []))
     = Some (Naive 63918806400000000)
   \<and> parse_date (sample_env None) (dict_get bad_record (py ''departure'') (JStr []))
     = Some (Naive 63918460800000000)
   \<and> dt_gt (Naive 63918806400000000) (Naive 63918460800000000) = Inr True
   \<and> can_print (sample_env None) (py ''2026-07-05'' @ py ''2026-07-01'')
   \<and> raised (check_latlon (sample_env None) 1 (start bad_record)) = None
   \<and> distinct (map fst bad_record)
   \<and> \<not> row_ok (process_record (sample_env None) False 1 bad_record)
   \<and> dict_get (item (check_dates (sample_env None) True 1 (start bad_record))) (py ''arrival'') (JStr [])
       = JStr (py ''2026-07-01'')
   \<and> dict_get (item (check_dates (sample_env None) True 1 (start bad_record))) (py ''departure'') (JStr [])
       = JStr (py ''2026-07-05'')
   \<and> row_ok (check_dates (sample_env None) True 1 (start bad_record))
   \<and> SwappingDates 1 \<in> set (printed (process_record (sample_env None) True 1 bad_record))
   \<and> map_of (item (process_record (sample_env None) True 1 bad_record)) (py ''arrival'')
       = Some (JStr (py ''2026-07-01''))
   \<and> map_of (item (process_record (sample_env None) True 1 bad_record)) (py ''departure'')
       = Some (JStr (py ''2026-07-05''))
   \<and> map_of (item (process_record (sample_env None) True 1 emoji_dates_record)) (py ''departure'')
       = Some (JStr (py ''2026-07-0510:00:00''))
   \<and> \<not> can_print (sample_env None) ((py ''2026-07-05'' @ [55296] @ py ''10:00:00'') @ py ''2026-07-01'')
   \<and> check_dates (sample_env None) True 1 (start surrogate_dates_record)
       = (start surrogate_dates_record)\<lparr>raised := Some UnicodeEncodeError\<rparr>
   \<and> parse_date (sample_env None) (dict_get (item (start undated_record)) (py ''arrival'') (JStr [])) = None
   \<and> check_dates (sample_env None) False 1 (start undated_record) = start undated_record"
proof -
  let ?E = "sample_env None"
  have pa: "parse_date ?E (dict_get bad_record (py ''arrival'') (JStr [])) = Some (Naive 63918806400000000)"
    by (simp add: parse_date_def dict_get_def py_def sample_defs)
  have pb: "parse_date ?E (dict_get bad_record (py ''departure'') (JStr [])) = Some (Naive 63918460800000000)"
    by (simp add: parse_date_def dict_get_def py_def sample_defs)
  have gt: "dt_gt (Naive 63918806400000000) (Naive 63918460800000000) = Inr True"
    by simp
  have it: "item (start bad_record) = bad_record"
    by simp
  have un: "parse_date ?E (dict_get (item (start undated_record)) (py ''arrival'') (JStr [])) = None"
    by (simp add: parse_date_def dict_get_def py_def sample_defs)
  have da: "dict_get bad_record (py ''arrival'') (JStr []) = JStr (py ''2026-07-05'')"
    by (simp add: dict_get_def py_def sample_defs)
  have dd: "dict_get bad_record (py ''departure'') (JStr []) = JStr (py ''2026-07-01'')"
    by (simp add: dict_get_def py_def sample_defs)
  have enc: "can_print ?E (py ''2026-07-05'' @ py ''2026-07-01'')"
    by (simp add: can_print_def py_def sample_env_def)
  have enc': "can_print ?E (str_text ?E (dict_get bad_record (py ''arrival'') (JStr []))
                @ str_text ?E (dict_get bad_record (py ''departure'') (JStr [])))"
    using enc by (simp add: da dd str_text_def)
  have r: "raised (check_latlon ?E 1 (start bad_record)) = None"
    by (simp add: check_latlon_raised to_float_def dict_get_def py_def float_overflow_def bad_record_def)
  have k: "distinct (map fst bad_record)"
    by (simp add: bad_record_def py_def)
  have n1: "normalize_value (JStr (py ''2026-07-01'')) = JStr (py ''2026-07-01'')"
    by (simp add: normalize_value_def model_defs)
  have n5: "normalize_value (JStr (py ''2026-07-05'')) = JStr (py ''2026-07-05'')"
    by (simp add: normalize_value_def model_defs)
  note th = inverted_dates [OF pa pb gt it, of 1]
  from th enc' have 1: "\<not> row_ok (process_record ?E False 1 bad_record)" using r by blast
  from th enc' have "dict_get (item (check_dates ?E True 1 (start bad_record))) (py ''arrival'') (JStr [])
       = dict_get bad_record (py ''departure'') (JStr [])" by blast
  then have 2: "dict_get (item (check_dates ?E True 1 (start bad_record))) (py ''arrival'') (JStr [])
       = JStr (py ''2026-07-01'')" by (simp only: dd)
  from th enc' have "dict_get (item (check_dates ?E True 1 (start bad_record))) (py ''departure'') (JStr [])
       = dict_get bad_record (py ''arrival'') (JStr [])" by blast
  then have 3: "dict_get (item (check_dates ?E True 1 (start bad_record))) (py ''departure'') (JStr [])
       = JStr (py ''2026-07-05'')" by (simp only: da)
  from th enc' have "row_ok (check_dates ?E True 1 (start bad_record)) = row_ok (start bad_record)" by blast
  then have 4: "row_ok (check_dates ?E True 1 (start bad_record))" by simp
  from th enc' r have 5: "SwappingDates 1 \<in> set (printed (process_record ?E True 1 bad_record))" by blast
  from th enc' r k have "map_of (item (process_record ?E True 1 bad_record)) (py ''arrival'')
       = Some (normalize_value (dict_get bad_record (py ''departure'') (JStr [])))" by blast
  then have 6: "map_of (item (process_record ?E True 1 bad_record)) (py ''arrival'')
       = Some (JStr (py ''2026-07-01''))" by (simp only: dd n1)
  from th enc' r k have "map_of (item (process_record ?E True 1 bad_record)) (py ''departure'')
       = Some (normalize_value (dict_get bad_record (py ''arrival'') (JStr [])))" by blast
  then have 7: "map_of (item (process_record ?E True 1 bad_record)) (py ''departure'')
       = Some (JStr (py ''2026-07-05''))" by (simp only: da n5)
  from th un have 8: "check_dates ?E False 1 (start undated_record) = start undated_record" by blast
  have epa: "parse_date ?E (dict_get emoji_dates_record (py ''arrival'') (JStr [])) = Some (Naive 63918842400000000)"
    by (simp add: parse_date_def dict_get_def py_def sample_defs)
  have epb: "parse_date ?E (dict_get emoji_dates_record (py ''departure'') (JStr [])) = Some (Naive 63918460800000000)"
    by (simp add: parse_date_def dict_get_def py_def sample_defs)
  have egt: "dt_gt (Naive 63918842400000000) (Naive 63918460800000000) = Inr True"
    by simp
  have eit: "item (start emoji_dates_record) = emoji_dates_record"
    by simp
  have eda: "dict_get emoji_dates_record (py ''arrival'') (JStr [])
       = JStr (py ''2026-07-05'' @ [128512] @ py ''10:00:00'')"
    by (simp add: dict_get_def py_def sample_defs)
  have edd: "dict_get emoji_dates_record (py ''departure'') (JStr []) = JStr (py ''2026-07-01'')"
    by (simp add: dict_get_def py_def sample_defs)
  have "can_print ?E ((py ''2026-07-05'' @ [128512] @ py ''10:00:00'') @ py ''2026-07-01'')"
    by (simp add: can_print_def py_def sample_env_def)
  then have eenc: "can_print ?E (str_text ?E (dict_get emoji_dates_record (py ''arrival'') (JStr []))
                @ str_text ?E (dict_get emoji_dates_record (py ''departure'') (JStr [])))"
    by (simp add: eda edd str_text_def)
  have er: "raised (check_latlon ?E 1 (start emoji_dates_record)) = None"
    by (simp add: check_latlon_raised to_float_def dict_get_def py_def float_overflow_def emoji_dates_record_def)
  have ek: "distinct (map fst emoji_dates_record)"
    by (simp add: emoji_dates_record_def py_def)
  have en: "normalize_value (JStr (py ''2026-07-05'' @ [128512] @ py ''10:00:00''))
       = JStr (py ''2026-07-0510:00:00'')"
    by (simp add: normalize_value_def model_defs)
  note the = inverted_dates [OF epa epb egt eit, of 1]
  from the eenc er ek have "map_of (item (process_record ?E True 1 emoji_dates_record)) (py ''departure'')
       = Some (normalize_value (dict_get emoji_dates_record (py ''arrival'') (JStr [])))" by blast
  then have 9: "map_of (item (process_record ?E True 1 emoji_dates_record)) (py ''departure'')
       = Some (JStr (py ''2026-07-0510:00:00''))" by (simp only: eda en)
  have spa: "parse_date ?E (dict_get surrogate_dates_record (py ''arrival'') (JStr [])) = Some (Naive 63918842400000000)"
    by (simp add: parse_date_def dict_get_def py_def sample_defs)
  have spb: "parse_date ?E (dict_get surrogate_dates_record (py ''departure'') (JStr [])) = Some (Naive 63918460800000000)"
    by (simp add: parse_date_def dict_get_def py_def sample_defs)
  have sit: "item (start surrogate_dates_record) = surrogate_dates_record"
    by simp
  have sda: "dict_get surrogate_dates_record (py ''arrival'') (JStr [])
       = JStr (py ''2026-07-05'' @ [55296] @ py ''10:00:00'')"
    by (simp add: dict_get_def py_def sample_defs)
  have sdd: "dict_get surrogate_dates_record (py ''departure'') (JStr []) = JStr (py ''2026-07-01'')"
    by (simp add: dict_get_def py_def sample_defs)
  have senc: "\<not> can_print ?E ((py ''2026-07-05'' @ [55296] @ py ''10:00:00'') @ py ''2026-07-01'')"
    by (simp add: can_print_def py_def sample_env_def)
  have senc': "\<not> can_print ?E (str_text ?E (dict_get surrogate_dates_record (py ''arrival'') (JStr []))
                @ str_text ?E (dict_get surrogate_dates_record (py ''departure'') (JStr [])))"
    using senc by (simp add: sda sdd str_text_def)
  note ths = inverted_dates [OF spa spb egt sit, of 1]
  from ths senc' have 10: "check_dates ?E True 1 (start surrogate_dates_record)
       = (start surrogate_dates_record)\<lparr>raised := Some UnicodeEncodeError\<rparr>" by blast
  show ?thesis
    using pa pb gt enc r k 1 2 3 4 5 6 7 9 senc 10 un 8 by blast
qed

text \<open>
  C3. A record that lacks a required field gets exactly one missing-fields line, which
  names the required fields absent from it and no others, and its row flag is cleared.
  A run over a dataset that holds such a record does not exit with status 0: it exits
  with status 1, and when \<^verbatim>\<open>main\<close> returns, it returns 1 and the line of that row is in
  its output.
\<close>

theorem missing_fields_reported:
  assumes "missing_fields d \<noteq> []"
  shows "MissingFields i (missing_fields d) \<in> set (printed (process_row E fix i (JObj d)))
       \<and> filter is_missing_line (printed (process_row E fix i (JObj d)))
           = [MissingFields i (missing_fields d)]
       \<and> set (missing_fields d) = {f \<in> set REQUIRED_FIELDS. f \<notin> fst ` set d}
       \<and> \<not> row_ok (process_row E fix i (JObj d))
       \<and> (\<forall>p t its inplace.
             read_text E p = Some t \<and> json_loads E t = Some (JList its) \<and> JObj d \<in> set its
             \<longrightarrow> exit_status (main E p fix inplace) = 1)
       \<and> (\<forall>p t its inplace n k.
             read_text E p = Some t \<and> json_loads E t = Some (JList its)
             \<and> result (main E p fix inplace) = Returned n \<and> k < length its \<and> its ! k = JObj d
             \<longrightarrow> n = 1 \<and> MissingFields (Suc k) (missing_fields d) \<in> set (stdout (main E p fix inplace)))"
proof -
  have lines: "\<And>j. filter is_missing_line (printed (process_row E fix j (JObj d)))
           = [MissingFields j (missing_fields d)]"
    using assms by (simp add: process_row_record missing_lines)
  have mem: "\<And>j. MissingFields j (missing_fields d) \<in> set (printed (process_row E fix j (JObj d)))"
  proof -
    fix j
    have "MissingFields j (missing_fields d) \<in> set (filter is_missing_line (printed (process_row E fix j (JObj d))))"
      by (simp add: lines)
    then show "MissingFields j (missing_fields d) \<in> set (printed (process_row E fix j (JObj d)))"
      by simp
  qed
  have bad: "\<And>j. \<not> row_ok (process_row E fix j (JObj d))"
    using assms by (auto simp add: process_row_record dest: process_record_row_ok_required)
  have run: "\<forall>p t its inplace.
             read_text E p = Some t \<and> json_loads E t = Some (JList its) \<and> JObj d \<in> set its
             \<longrightarrow> exit_status (main E p fix inplace) = 1"
    using main_exit_failed_row[of E _ _ _ "JObj d" "fix"] bad by blast
  have out: "\<forall>p t its inplace n k.
             read_text E p = Some t \<and> json_loads E t = Some (JList its)
             \<and> result (main E p fix inplace) = Returned n \<and> k < length its \<and> its ! k = JObj d
             \<longrightarrow> n = 1 \<and> MissingFields (Suc k) (missing_fields d) \<in> set (stdout (main E p fix inplace))"
  proof (intro allI impI, elim conjE)
    fix p t its inplace n k
    assume a: "read_text E p = Some t" "json_loads E t = Some (JList its)"
      "result (main E p fix inplace) = Returned n" "k < length its" "its ! k = JObj d"
    from a(4,5) have "JObj d \<in> set its" by (metis nth_mem)
    with run a(1,2) have "exit_status (main E p fix inplace) = 1" by blast
    with a(3) have n: "n = 1" by (simp add: exit_status_def)
    from main_stdout_row[OF a(1-4)] a(5) mem[of "Suc k"]
    have "MissingFields (Suc k) (missing_fields d) \<in> set (stdout (main E p fix inplace))"
      by auto
    with n show "n = 1 \<and> MissingFields (Suc k) (missing_fields d) \<in> set (stdout (main E p fix inplace))"
      by simp
  qed
  show ?thesis
    using lines[of i] mem[of i] bad[of i] run out missing_fields_set[of d] by blast
qed

theorem missing_fields_reported_witness:
  "missing_fields far_record
     = map py [''number'', ''arrival'', ''departure'', ''duration'', ''distance'', ''type'',
               ''link'', ''season'']
   \<and> MissingFields 1 (missing_fields far_record)
       \<in> set (printed (process_row (sample_env (Some (JList [JObj far_record]))) False 1 (JObj far_record)))
   \<and> \<not> row_ok (process_row (sample_env (Some (JList [JObj far_record]))) False 1 (JObj far_record))
   \<and> exit_status (main (sample_env (Some (JList [JObj far_record]))) sample_path False False) = 1
   \<and> result (main (sample_env (Some (JList [JObj far_record]))) sample_path False False) = Returned 1
   \<and> MissingFields 1 (missing_fields far_record)
       \<in> set (stdout (main (sample_env (Some (JList [JObj far_record]))) sample_path False False))"
proof -
  let ?E = "sample_env (Some (JList [JObj far_record]))"
  have m: "missing_fields far_record
     = map py [''number'', ''arrival'', ''departure'', ''duration'', ''distance'', ''type'',
               ''link'', ''season'']"
    by (simp add: missing_fields_def REQUIRED_FIELDS_def py_def sample_defs)
  then have ne: "missing_fields far_record \<noteq> []"
    by simp
  have r: "read_text ?E sample_path = Some (py ''(the text of data.json)'')"
    by (simp add: sample_env_def)
  have l: "json_loads ?E (py ''(the text of data.json)'') = Some (JList [JObj far_record])"
    by (simp add: sample_env_def)
  have res: "result (main ?E sample_path False False) = Returned 1"
    by (simp add: model_defs sample_defs)
  note th = missing_fields_reported [OF ne, of 1 ?E False]
  from th have 1: "MissingFields 1 (missing_fields far_record)
       \<in> set (printed (process_row ?E False 1 (JObj far_record)))" by blast
  from th have 2: "\<not> row_ok (process_row ?E False 1 (JObj far_record))" by blast
  from th r l have 3: "exit_status (main ?E sample_path False False) = 1" by simp
  from th have "read_text ?E sample_path = Some (py ''(the text of data.json)'')
        \<and> json_loads ?E (py ''(the text of data.json)'') = Some (JList [JObj far_record])
        \<and> result (main ?E sample_path False False) = Returned 1 \<and> 0 < length [JObj far_record]
        \<and> [JObj far_record] ! 0 = JObj far_record
     \<longrightarrow> MissingFields (Suc 0) (missing_fields far_record)
           \<in> set (stdout (main ?E sample_path False False))" by blast
  with r l res have 4: "MissingFields 1 (missing_fields far_record)
           \<in> set (stdout (main ?E sample_path False False))" by simp
  show ?thesis
    using m 1 2 3 res 4 by blast
qed

text \<open>
  C4. Let both coordinates of a record coerce to numbers. The coordinate lines of its row
  are then: the latitude line exactly when the latitude is not within \<open>[-90, 90]\<close>,
  followed by the longitude line exactly when the longitude is not within
  \<open>[-180, 180]\<close>; each of the two clears the row flag, whatever the other fields hold,
  and a record out of both ranges gets both lines. NaN and the infinities are not within
  either range.
\<close>

theorem coordinates_out_of_range:
  assumes lat: "to_float E (dict_get d (py ''lat'') (JInt 0)) = Some lat"
    and lon: "to_float E (dict_get d (py ''lon'') (JInt 0)) = Some lon"
  shows "filter is_coord_line (printed (process_row E fix i (JObj d)))
           = (if \<not> in_range (-90) 90 lat then [LatOutOfRange i] else [])
             @ (if \<not> in_range (-180) 180 lon then [LonOutOfRange i] else [])
       \<and> (\<not> in_range (-90) 90 lat \<longrightarrow>
            LatOutOfRange i \<in> set (printed (process_row E fix i (JObj d)))
            \<and> \<not> row_ok (process_row E fix i (JObj d)))
       \<and> (\<not> in_range (-180) 180 lon \<longrightarrow>
            LonOutOfRange i \<in> set (printed (process_row E fix i (JObj d)))
            \<and> \<not> row_ok (process_row E fix i (JObj d)))
       \<and> (in_range (-90) 90 lat \<longleftrightarrow> (\<exists>q. lat = Fin q \<and> -90 \<le> q \<and> q \<le> 90))
       \<and> (in_range (-180) 180 lon \<longleftrightarrow> (\<exists>q. lon = Fin q \<and> -180 \<le> q \<and> q \<le> 180))"
proof -
  let ?r = "process_row E fix i (JObj d)"
  have f: "filter is_coord_line (printed ?r)
           = (if \<not> in_range (-90) 90 lat then [LatOutOfRange i] else [])
             @ (if \<not> in_range (-180) 180 lon then [LonOutOfRange i] else [])"
    using check_latlon_numeric(1)[of E "start d" lat lon i] lat lon
    by (simp add: process_row_record coord_lines)
  have ok: "row_ok ?r \<Longrightarrow> in_range (-90) 90 lat \<and> in_range (-180) 180 lon"
  proof -
    assume "row_ok ?r"
    then have "row_ok (check_latlon E i (check_required i (start d)))"
      by (simp add: process_row_record process_record_row_ok_latlon)
    then show ?thesis
      using check_latlon_numeric(2)[of E "check_required i (start d)" lat lon i] lat lon by simp
  qed
  have a: "\<not> in_range (-90) 90 lat \<Longrightarrow> LatOutOfRange i \<in> set (printed ?r)"
  proof -
    assume "\<not> in_range (-90) 90 lat"
    then have "LatOutOfRange i \<in> set (filter is_coord_line (printed ?r))"
      by (simp add: f)
    then show ?thesis by simp
  qed
  have b: "\<not> in_range (-180) 180 lon \<Longrightarrow> LonOutOfRange i \<in> set (printed ?r)"
  proof -
    assume "\<not> in_range (-180) 180 lon"
    then have "LonOutOfRange i \<in> set (filter is_coord_line (printed ?r))"
      by (simp add: f)
    then show ?thesis by simp
  qed
  have c: "in_range (-90) 90 lat \<longleftrightarrow> (\<exists>q. lat = Fin q \<and> -90 \<le> q \<and> q \<le> 90)"
    by (cases lat) (simp_all add: in_range_def)
  have e: "in_range (-180) 180 lon \<longleftrightarrow> (\<exists>q. lon = Fin q \<and> -180 \<le> q \<and> q \<le> 180)"
    by (cases lon) (simp_all add: in_range_def)
  show ?thesis
    using f ok a b c e by blast
qed

theorem coordinates_out_of_range_witness:
  "to_float (sample_env None) (dict_get far_record (py ''lat'') (JInt 0)) = Some (Fin 95)
   \<and> to_float (sample_env None) (dict_get far_record (py ''lon'') (JInt 0)) = Some (Fin 200)
   \<and> \<not> in_range (-90) 90 (Fin 95) \<and> \<not> in_range (-180) 180 (Fin 200)
   \<and> filter is_coord_line (printed (process_row (sample_env None) False 1 (JObj far_record)))
       = [LatOutOfRange 1, LonOutOfRange 1]
   \<and> \<not> row_ok (process_row (sample_env None) False 1 (JObj far_record))"
proof -
  let ?E = "sample_env None"
  have lat: "to_float ?E (dict_get far_record (py ''lat'') (JInt 0)) = Some (Fin 95)"
    by (simp add: to_float_def dict_get_def py_def float_overflow_def sample_defs)
  have lon: "to_float ?E (dict_get far_record (py ''lon'') (JInt 0)) = Some (Fin 200)"
    by (simp add: to_float_def dict_get_def py_def float_overflow_def sample_defs)
  have o1: "\<not> in_range (-90) 90 (Fin 95)" by (simp add: in_range_def)
  have o2: "\<not> in_range (-180) 180 (Fin 200)" by (simp add: in_range_def)
  note th = coordinates_out_of_range [OF lat lon, of False 1]
  from th o1 o2 have 1: "filter is_coord_line (printed (process_row ?E False 1 (JObj far_record)))
       = [LatOutOfRange 1, LonOutOfRange 1]" by simp
  from th o1 have 2: "\<not> row_ok (process_row ?E False 1 (JObj far_record))" by blast
  show ?thesis
    using lat lon o1 o2 1 2 by blast
qed



text \<open>
  C10. A run without \<^verbatim>\<open>--fix\<close> writes no file and leaves every item of the loaded list
  as it was loaded, whatever the list holds and however the run ends; the loop body in
  non-fix mode returns each item unchanged.
\<close>

theorem nofix_is_pure:
  "written (main E p False inplace) = None
   \<and> (\<forall>t its. read_text E p = Some t \<and> json_loads E t = Some (JList its)
         \<longrightarrow> data_after (main E p False inplace) = its)
   \<and> (\<forall>i it. item (process_row E False i it) = it)"
proof -
  have "data_after (main E p False inplace) = its"
    if a: "read_text E p = Some t" "json_loads E t = Some (JList its)" for t its
  proof -
    let ?st0 = "\<lparr>ok = True, cleaned = [], lines = [], failure = None, unvisited = []\<rparr>"
    have "failure ?st0 = None" by simp
    from rows_nofix_data[OF this, of E 1 its] show ?thesis
      by (auto simp add: main_loaded[OF a] Let_def finish_def split: option.splits if_splits)
  qed
  then show ?thesis
    by (simp add: main_nofix_written)
qed

theorem nofix_is_pure_witness:
  "read_text (sample_env (Some (JList [JObj bad_record]))) sample_path
     = Some (py ''(the text of data.json)'')
   \<and> json_loads (sample_env (Some (JList [JObj bad_record]))) (py ''(the text of data.json)'')
     = Some (JList [JObj bad_record])
   \<and> written (main (sample_env (Some (JList [JObj bad_record]))) sample_path False True) = None
   \<and> data_after (main (sample_env (Some (JList [JObj bad_record]))) sample_path False True)
     = [JObj bad_record]"
proof -
  let ?E = "sample_env (Some (JList [JObj bad_record]))"
  have r: "read_text ?E sample_path = Some (py ''(the text of data.json)'')"
    by (simp add: sample_env_def)
  have l: "json_loads ?E (py ''(the text of data.json)'') = Some (JList [JObj bad_record])"
    by (simp add: sample_env_def)
  note th = nofix_is_pure [of ?E sample_path True]
  from th have 1: "written (main ?E sample_path False True) = None" by blast
  from th r l have 2: "data_after (main ?E sample_path False True) = [JObj bad_record]" by blast
  show ?thesis using r l 1 2 by blast
qed

text \<open>
  C8, as the code has it. The coordinate check reads an absent \<^verbatim>\<open>lat\<close> as 0, which
  coerces and lies within range, so an absent latitude never adds a line of its own: the
  coordinate lines of such a row are decided by \<^verbatim>\<open>lon\<close> alone (the not-numeric line
  when \<^verbatim>\<open>lon\<close> does not coerce, the longitude line when it is out of range, none
  otherwise), and so is the flag the check leaves. The not-numeric line shows the value
  of \<^verbatim>\<open>lon\<close>: when the output stream cannot encode it, \<^verbatim>\<open>print\<close> raises
  \<^verbatim>\<open>UnicodeEncodeError\<close> inside the handler, so that no coordinate line is printed and the
  check leaves the flag as it found it; in every other case the check raises nothing.
  The same holds with the two coordinates exchanged. When both are absent the check
  prints nothing and changes nothing. In each case the completeness check reports the
  absent field and fails the row.

  The claim as stated (a record without \<^verbatim>\<open>lat\<close> gets no coordinate line and is not failed
  by the coordinate check) fails on a record without \<^verbatim>\<open>lat\<close> whose \<^verbatim>\<open>lon\<close> is 200, and
  on one whose \<^verbatim>\<open>lon\<close> is the string \<^verbatim>\<open>east\<close>.
\<close>

theorem absent_coordinate:
  "(map_of d (py ''lat'') = None \<longrightarrow>
      filter is_coord_line (printed (process_row E fix i (JObj d)))
        = (case to_float E (dict_get d (py ''lon'') (JInt 0)) of
             None \<Rightarrow> if can_print E (shown E (map_of d (py ''lon'')))
                     then [LatLonNotNumeric i None (map_of d (py ''lon''))] else []
           | Some lon \<Rightarrow> if in_range (-180) 180 lon then [] else [LonOutOfRange i])
      \<and> row_ok (check_latlon E i (start d))
        = (case to_float E (dict_get d (py ''lon'') (JInt 0)) of
             None \<Rightarrow> \<not> can_print E (shown E (map_of d (py ''lon'')))
           | Some lon \<Rightarrow> in_range (-180) 180 lon)
      \<and> raised (check_latlon E i (start d))
        = (case to_float E (dict_get d (py ''lon'') (JInt 0)) of
             None \<Rightarrow> if can_print E (shown E (map_of d (py ''lon''))) then None
                     else Some UnicodeEncodeError
           | Some lon \<Rightarrow> None)
      \<and> py ''lat'' \<in> set (missing_fields d)
      \<and> MissingFields i (missing_fields d) \<in> set (printed (process_row E fix i (JObj d)))
      \<and> \<not> row_ok (check_required i (start d))
      \<and> \<not> row_ok (process_row E fix i (JObj d)))
   \<and> (map_of d (py ''lon'') = None \<longrightarrow>
      filter is_coord_line (printed (process_row E fix i (JObj d)))
        = (case to_float E (dict_get d (py ''lat'') (JInt 0)) of
             None \<Rightarrow> if can_print E (shown E (map_of d (py ''lat'')))
                     then [LatLonNotNumeric i (map_of d (py ''lat'')) None] else []
           | Some lat \<Rightarrow> if in_range (-90) 90 lat then [] else [LatOutOfRange i])
      \<and> row_ok (check_latlon E i (start d))
        = (case to_float E (dict_get d (py ''lat'') (JInt 0)) of
             None \<Rightarrow> \<not> can_print E (shown E (map_of d (py ''lat'')))
           | Some lat \<Rightarrow> in_range (-90) 90 lat)
      \<and> raised (check_latlon E i (start d))
        = (case to_float E (dict_get d (py ''lat'') (JInt 0)) of
             None \<Rightarrow> if can_print E (shown E (map_of d (py ''lat''))) then None
                     else Some UnicodeEncodeError
           | Some lat \<Rightarrow> None)
      \<and> py ''lon'' \<in> set (missing_fields d)
      \<and> MissingFields i (missing_fields d) \<in> set (printed (process_row E fix i (JObj d)))
      \<and> \<not> row_ok (check_required i (start d))
      \<and> \<not> row_ok (process_row E fix i (JObj d)))
   \<and> (map_of d (py ''lat'') = None \<and> map_of d (py ''lon'') = None \<longrightarrow>
      filter is_coord_line (printed (process_row E fix i (JObj d))) = []
      \<and> (\<forall>s. item s = d \<longrightarrow> check_latlon E i s = s))"
proof -
  have common: "k \<in> set (missing_fields d)
      \<and> MissingFields i (missing_fields d) \<in> set (printed (process_row E fix i (JObj d)))
      \<and> \<not> row_ok (check_required i (start d))
      \<and> \<not> row_ok (process_row E fix i (JObj d))"
    if "map_of d k = None" "k \<in> set REQUIRED_FIELDS" for k
  proof -
    from that have m: "k \<in> set (missing_fields d)" by (rule absent_is_missing)
    then have ne: "missing_fields d \<noteq> []" by auto
    have "\<not> row_ok (process_row E fix i (JObj d))"
      using ne by (auto simp add: process_row_record dest: process_record_row_ok_required)
    with m ne show ?thesis
      by (simp add: row_missing_line check_required_row_ok)
  qed
  have lat: "filter is_coord_line (printed (process_row E fix i (JObj d)))
        = (case to_float E (dict_get d (py ''lon'') (JInt 0)) of
             None \<Rightarrow> if can_print E (shown E (map_of d (py ''lon'')))
                     then [LatLonNotNumeric i None (map_of d (py ''lon''))] else []
           | Some lon \<Rightarrow> if in_range (-180) 180 lon then [] else [LonOutOfRange i])
      \<and> row_ok (check_latlon E i (start d))
        = (case to_float E (dict_get d (py ''lon'') (JInt 0)) of
             None \<Rightarrow> \<not> can_print E (shown E (map_of d (py ''lon'')))
           | Some lon \<Rightarrow> in_range (-180) 180 lon)
      \<and> raised (check_latlon E i (start d))
        = (case to_float E (dict_get d (py ''lon'') (JInt 0)) of
             None \<Rightarrow> if can_print E (shown E (map_of d (py ''lon''))) then None
                     else Some UnicodeEncodeError
           | Some lon \<Rightarrow> None)"
    if "map_of d (py ''lat'') = None"
    using that check_latlon_no_lat[of "start d" E i]
    by (simp add: process_row_record coord_lines split: option.splits)
  have lon: "filter is_coord_line (printed (process_row E fix i (JObj d)))
        = (case to_float E (dict_get d (py ''lat'') (JInt 0)) of
             None \<Rightarrow> if can_print E (shown E (map_of d (py ''lat'')))
                     then [LatLonNotNumeric i (map_of d (py ''lat'')) None] else []
           | Some lat \<Rightarrow> if in_range (-90) 90 lat then [] else [LatOutOfRange i])
      \<and> row_ok (check_latlon E i (start d))
        = (case to_float E (dict_get d (py ''lat'') (JInt 0)) of
             None \<Rightarrow> \<not> can_print E (shown E (map_of d (py ''lat'')))
           | Some lat \<Rightarrow> in_range (-90) 90 lat)
      \<and> raised (check_latlon E i (start d))
        = (case to_float E (dict_get d (py ''lat'') (JInt 0)) of
             None \<Rightarrow> if can_print E (shown E (map_of d (py ''lat''))) then None
                     else Some UnicodeEncodeError
           | Some lat \<Rightarrow> None)"
    if "map_of d (py ''lon'') = None"
    using that check_latlon_no_lon[of "start d" E i]
    by (simp add: process_row_record coord_lines split: option.splits)
  have both: "filter is_coord_line (printed (process_row E fix i (JObj d))) = []
      \<and> (\<forall>s. item s = d \<longrightarrow> check_latlon E i s = s)"
    if "map_of d (py ''lat'') = None" "map_of d (py ''lon'') = None"
    using that lat by (auto simp add: dict_get_absent check_latlon_no_lat)
  show ?thesis
    using common[of "py ''lat''"] common[of "py ''lon''"] lat lon both lat_lon_required
    by blast
qed

theorem absent_coordinate_counterexample:
  "map_of lon_only_record (py ''lat'') = None
   \<and> LonOutOfRange 1 \<in> set (printed (process_row (sample_env None) False 1 (JObj lon_only_record)))
   \<and> row_ok (start lon_only_record)
   \<and> \<not> row_ok (check_latlon (sample_env None) 1 (start lon_only_record))
   \<and> map_of lon_text_record (py ''lat'') = None
   \<and> LatLonNotNumeric 1 None (Some (JStr (py ''east'')))
       \<in> set (printed (process_row (sample_env None) False 1 (JObj lon_text_record)))
   \<and> \<not> row_ok (check_latlon (sample_env None) 1 (start lon_text_record))"
  by (simp add: model_defs sample_defs start_def)

theorem absent_coordinate_witness:
  "map_of lon_only_record (py ''lat'') = None
   \<and> filter is_coord_line (printed (process_row (sample_env None) True 1 (JObj lon_only_record)))
       = [LonOutOfRange 1]
   \<and> py ''lat'' \<in> set (missing_fields lon_only_record)
   \<and> \<not> row_ok (process_row (sample_env None) True 1 (JObj lon_only_record))
   \<and> map_of lon_text_record (py ''lat'') = None
   \<and> filter is_coord_line (printed (process_row (sample_env None) False 1 (JObj lon_text_record)))
       = [LatLonNotNumeric 1 None (Some (JStr (py ''east'')))]
   \<and> \<not> row_ok (check_latlon (sample_env None) 1 (start lon_text_record))
   \<and> map_of lon_surrogate_record (py ''lat'') = None
   \<and> filter is_coord_line (printed (process_row (sample_env None) False 1 (JObj lon_surrogate_record)))
       = []
   \<and> raised (check_latlon (sample_env None) 1 (start lon_surrogate_record)) = Some UnicodeEncodeError
   \<and> row_ok (check_latlon (sample_env None) 1 (start lon_surrogate_record))
   \<and> map_of undated_record (py ''lat'') = None \<and> map_of undated_record (py ''lon'') = None
   \<and> filter is_coord_line (printed (process_row (sample_env None) True 1 (JObj undated_record))) = []
   \<and> check_latlon (sample_env None) 1 (start undated_record) = start undated_record
   \<and> map_of far_record (py ''lat'') = Some (JInt 95)"
proof -
  let ?E = "sample_env None"
  have a: "map_of lon_only_record (py ''lat'') = None"
    by (simp add: lon_only_record_def py_def)
  have f: "to_float ?E (dict_get lon_only_record (py ''lon'') (JInt 0)) = Some (Fin 200)"
    by (simp add: to_float_def dict_get_def py_def float_overflow_def lon_only_record_def)
  have o: "\<not> in_range (-180) 180 (Fin 200)" by (simp add: in_range_def)
  have ta: "map_of lon_text_record (py ''lat'') = None"
    by (simp add: lon_text_record_def py_def)
  have tl: "map_of lon_text_record (py ''lon'') = Some (JStr (py ''east''))"
    by (simp add: lon_text_record_def py_def)
  have tf: "to_float ?E (dict_get lon_text_record (py ''lon'') (JInt 0)) = None"
    by (simp add: to_float_def dict_get_def py_def sample_defs)
  have tp: "can_print ?E (shown ?E (Some (JStr (py ''east''))))"
    by (simp add: can_print_def shown_def str_text_def py_def)
  have sa: "map_of lon_surrogate_record (py ''lat'') = None"
    by (simp add: lon_surrogate_record_def py_def)
  have sl: "map_of lon_surrogate_record (py ''lon'') = Some (JStr [55296])"
    by (simp add: lon_surrogate_record_def py_def)
  have sf: "to_float ?E (dict_get lon_surrogate_record (py ''lon'') (JInt 0)) = None"
    by (simp add: to_float_def dict_get_def py_def sample_defs)
  have sp: "\<not> can_print ?E (shown ?E (Some (JStr [55296])))"
    by (simp add: can_print_def shown_def str_text_def sample_env_def)
  have u: "map_of undated_record (py ''lat'') = None" "map_of undated_record (py ''lon'') = None"
    by (simp_all add: undated_record_def py_def)
  have w: "map_of far_record (py ''lat'') = Some (JInt 95)"
    by (simp add: far_record_def py_def)
  note t1 = absent_coordinate [of lon_only_record ?E True 1]
  note t2 = absent_coordinate [of undated_record ?E True 1]
  note t3 = absent_coordinate [of lon_text_record ?E False 1]
  note t4 = absent_coordinate [of lon_surrogate_record ?E False 1]
  from t1 a have "filter is_coord_line (printed (process_row ?E True 1 (JObj lon_only_record)))
        = (case to_float ?E (dict_get lon_only_record (py ''lon'') (JInt 0)) of
             None \<Rightarrow> if can_print ?E (shown ?E (map_of lon_only_record (py ''lon'')))
                     then [LatLonNotNumeric 1 None (map_of lon_only_record (py ''lon''))] else []
           | Some lon \<Rightarrow> if in_range (-180) 180 lon then [] else [LonOutOfRange 1])" by blast
  then have 1: "filter is_coord_line (printed (process_row ?E True 1 (JObj lon_only_record))) = [LonOutOfRange 1]"
    by (simp add: f o)
  from t1 a have 2: "py ''lat'' \<in> set (missing_fields lon_only_record)" by blast
  from t1 a have 3: "\<not> row_ok (process_row ?E True 1 (JObj lon_only_record))" by blast
  from t2 u have 4: "filter is_coord_line (printed (process_row ?E True 1 (JObj undated_record))) = []" by blast
  from t2 u have "\<forall>s. item s = undated_record \<longrightarrow> check_latlon ?E 1 s = s" by blast
  then have 5: "check_latlon ?E 1 (start undated_record) = start undated_record" by simp
  from t3 ta have "filter is_coord_line (printed (process_row ?E False 1 (JObj lon_text_record)))
        = (case to_float ?E (dict_get lon_text_record (py ''lon'') (JInt 0)) of
             None \<Rightarrow> if can_print ?E (shown ?E (map_of lon_text_record (py ''lon'')))
                     then [LatLonNotNumeric 1 None (map_of lon_text_record (py ''lon''))] else []
           | Some lon \<Rightarrow> if in_range (-180) 180 lon then [] else [LonOutOfRange 1])" by blast
  then have 6: "filter is_coord_line (printed (process_row ?E False 1 (JObj lon_text_record)))
       = [LatLonNotNumeric 1 None (Some (JStr (py ''east'')))]"
    by (simp add: tf tl tp)
  from t3 ta have "row_ok (check_latlon ?E 1 (start lon_text_record))
        = (case to_float ?E (dict_get lon_text_record (py ''lon'') (JInt 0)) of
             None \<Rightarrow> \<not> can_print ?E (shown ?E (map_of lon_text_record (py ''lon'')))
           | Some lon \<Rightarrow> in_range (-180) 180 lon)" by blast
  then have 7: "\<not> row_ok (check_latlon ?E 1 (start lon_text_record))"
    by (simp add: tf tl tp)
  from t4 sa have "filter is_coord_line (printed (process_row ?E False 1 (JObj lon_surrogate_record)))
        = (case to_float ?E (dict_get lon_surrogate_record (py ''lon'') (JInt 0)) of
             None \<Rightarrow> if can_print ?E (shown ?E (map_of lon_surrogate_record (py ''lon'')))
                     then [LatLonNotNumeric 1 None (map_of lon_surrogate_record (py ''lon''))] else []
           | Some lon \<Rightarrow> if in_range (-180) 180 lon then [] else [LonOutOfRange 1])" by blast
  then have 8: "filter is_coord_line (printed (process_row ?E False 1 (JObj lon_surrogate_record))) = []"
    by (simp add: sf sl sp)
  from t4 sa have "raised (check_latlon ?E 1 (start lon_surrogate_record))
        = (case to_float ?E (dict_get lon_surrogate_record (py ''lon'') (JInt 0)) of
             None \<Rightarrow> if can_print ?E (shown ?E (map_of lon_surrogate_record (py ''lon''))) then None
                     else Some UnicodeEncodeError
           | Some lon \<Rightarrow> None)" by blast
  then have 9: "raised (check_latlon ?E 1 (start lon_surrogate_record)) = Some UnicodeEncodeError"
    by (simp add: sf sl sp)
  from t4 sa have "row_ok (check_latlon ?E 1 (start lon_surrogate_record))
        = (case to_float ?E (dict_get lon_surrogate_record (py ''lon'') (JInt 0)) of
             None \<Rightarrow> \<not> can_print ?E (shown ?E (map_of lon_surrogate_record (py ''lon'')))
           | Some lon \<Rightarrow> in_range (-180) 180 lon)" by blast
  then have 10: "row_ok (check_latlon ?E 1 (start lon_surrogate_record))"
    by (simp add: sf sl sp)
  show ?thesis using a 1 2 3 ta 6 7 sa 8 9 10 u 4 5 w by blast
qed




text \<open>
  C5. The record \<open>crash_record\<close> has the placeholder as its link. Its arrival parses to
  an offset-aware date and its departure to a naive one, so the comparison of line 83
  raises \<^verbatim>\<open>TypeError\<close> before the link check of lines 94 to 107 is reached: in neither
  mode is a link line printed, the row flag is still set, and the link is unchanged.
  (On a row that raises nothing the link check does what the claim says:
  \<open>check_link_flagged\<close>, \<open>link_row_when_not_raised\<close>.)
\<close>

theorem unorderable_dates_skip_link_check:
  "dict_get crash_record (py ''link'') (JStr []) = JStr (py ''User to research'')
   \<and> contains (py ''User to research'') (py ''User to research'')
   \<and> parse_date (sample_env None) (dict_get crash_record (py ''arrival'') (JStr []))
       = Some (Aware 63918547200000000)
   \<and> parse_date (sample_env None) (dict_get crash_record (py ''departure'') (JStr []))
       = Some (Naive 63918460800000000)
   \<and> dt_gt (Aware 63918547200000000) (Naive 63918460800000000) = Inl TypeError
   \<and> process_row (sample_env None) False 1 (JObj crash_record)
       = \<lparr>row_ok = True, printed = [], item = JObj crash_record, raised = Some TypeError\<rparr>
   \<and> process_row (sample_env None) True 1 (JObj crash_record)
       = \<lparr>row_ok = True, printed = [], item = JObj crash_record, raised = Some TypeError\<rparr>"
  by (simp add: model_defs sample_defs)

text \<open>
  C9. A run with \<^verbatim>\<open>--fix\<close> over the one-record dataset \<open>[crash_record]\<close> ends in the
  \<^verbatim>\<open>TypeError\<close> of line 83 and writes no file, with or without \<^verbatim>\<open>--inplace\<close>.
  (A run that returns writes as the claim says, and an empty dataset is never written:
  \<open>main_fix_writes\<close>, \<open>main_empty_dataset\<close>, \<open>stem_suffix\<close>.)
\<close>

theorem unorderable_dates_stop_write:
  "read_text (sample_env (Some (JList [JObj crash_record]))) sample_path
     = Some (py ''(the text of data.json)'')
   \<and> json_loads (sample_env (Some (JList [JObj crash_record]))) (py ''(the text of data.json)'')
     = Some (JList [JObj crash_record])
   \<and> main (sample_env (Some (JList [JObj crash_record]))) sample_path True False
     = \<lparr>stdout = [], result = Uncaught TypeError, written = None,
        data_after = [JObj crash_record]\<rparr>
   \<and> main (sample_env (Some (JList [JObj crash_record]))) sample_path True True
     = \<lparr>stdout = [], result = Uncaught TypeError, written = None,
        data_after = [JObj crash_record]\<rparr>"
  by (simp add: model_defs sample_defs)

end
